theory Spec2Isabelle
  imports Main "HOL-Library.Word" "HOL-Library.Sublist"
begin

chapter \<open>The Gemini node: media generation, validation, post-processing and upload\<close>

text \<open>
  A shallow embedding of the TypeScript sources of the node (\<^verbatim>\<open>Gemini.node.ts\<close>,
  \<^verbatim>\<open>utils/videoUtils.ts\<close>, \<^verbatim>\<open>utils/s3Utils.ts\<close> and the parameter descriptions), followed by
  the properties stated about them. Every exception of the source is a value of a sum
  type (\<open>Inl\<close> the error), every collaborator outside the repository (the provider SDK, the
  object store, the file system, the clock, the random source) is an explicit argument.
\<close>

section \<open>JavaScript strings\<close>

text \<open>
  A JavaScript string is a sequence of UTF-16 code units. String literals of the source
  are written \<open>js ''...''\<close>; all of them are ASCII.
\<close>

type_synonym code_unit = "16 word"
type_synonym js_string = "code_unit list"

definition js :: "string \<Rightarrow> js_string" where
  "js s = map of_char s"

definition LF :: code_unit where
  "LF = 0x0A"

text \<open>\<^verbatim>\<open>String.prototype.trim\<close> removes WhiteSpace and LineTerminator code points from both ends.\<close>

definition isWhiteSpace :: "code_unit \<Rightarrow> bool" where
  "isWhiteSpace c \<longleftrightarrow>
     (0x09 \<le> c \<and> c \<le> 0x0D) \<or> c = 0x20 \<or> c = 0xA0 \<or> c = 0x1680 \<or>
     (0x2000 \<le> c \<and> c \<le> 0x200A) \<or> c = 0x2028 \<or> c = 0x2029 \<or> c = 0x202F \<or>
     c = 0x205F \<or> c = 0x3000 \<or> c = 0xFEFF"

definition trim :: "js_string \<Rightarrow> js_string" where
  "trim s = rev (dropWhile isWhiteSpace (rev (dropWhile isWhiteSpace s)))"

definition startsWith :: "js_string \<Rightarrow> js_string \<Rightarrow> bool" where
  "startsWith s pat = prefix pat s"

text \<open>\<^verbatim>\<open>s.includes(pat)\<close>: \<open>pat\<close> occurs in \<open>s\<close> as a contiguous substring.\<close>

fun includes_str :: "js_string \<Rightarrow> js_string \<Rightarrow> bool" where
  "includes_str [] pat = (pat = [])"
| "includes_str (c # cs) pat = (prefix pat (c # cs) \<or> includes_str cs pat)"

text \<open>
  Error objects: the properties the source reads are \<^verbatim>\<open>name\<close>, \<^verbatim>\<open>message\<close> and \<^verbatim>\<open>code\<close>; the
  last two may be undefined.
\<close>

record js_error =
  err_name :: js_string
  err_message :: "js_string option"
  err_code :: "js_string option"

definition Error :: "js_string \<Rightarrow> js_error" where
  "Error msg = \<lparr>err_name = js ''Error'', err_message = Some msg, err_code = None\<rparr>"

text \<open>
  What a function throws. \<open>JsError e\<close> is an error object whose properties are known: a
  native error of the language or an error of a library, as caught. The class
  \<^verbatim>\<open>NodeOperationError\<close> belongs to the package \<^verbatim>\<open>n8n-workflow\<close>, which is not part of the
  repository: \<open>NodeOperationError text\<close> stands for the object
  \<^verbatim>\<open>new NodeOperationError(node, text, ...)\<close> and records the text handed to the constructor,
  nothing else. The \<^verbatim>\<open>message\<close> property of such an object is what the constructor makes of the
  text; wherever it is read, the constructor's rule is an argument \<open>n8nMessage\<close>, from the text
  to the message.
\<close>

datatype thrown = JsError js_error | NodeOperationError js_string

definition messageOf :: "(js_string \<Rightarrow> js_string) \<Rightarrow> thrown \<Rightarrow> js_string option" where
  "messageOf n8nMessage t =
     (case t of JsError e \<Rightarrow> err_message e | NodeOperationError text \<Rightarrow> Some (n8nMessage text))"

text \<open>
  One rule to run examples with. Like the constructor of \<^verbatim>\<open>n8n-workflow\<close>, it replaces a text
  that contains the error code \<^verbatim>\<open>ENOTFOUND\<close> or \<^verbatim>\<open>ENOENT\<close>, compared in upper case, by the package's
  description of that code, and keeps a text without error code. The package describes
  further codes; none of them occurs in the texts of the examples.
\<close>

definition toUpperASCII :: "code_unit \<Rightarrow> code_unit" where
  "toUpperASCII c = (if 0x61 \<le> c \<and> c \<le> 0x7A then c - 0x20 else c)"

definition describesCommonErrors :: "js_string \<Rightarrow> js_string" where
  "describesCommonErrors text =
     (if includes_str (map toUpperASCII text) (js ''ENOTFOUND'')
      then js ''The connection cannot be established, this usually occurs due to an incorrect host (domain) value''
      else if includes_str (map toUpperASCII text) (js ''ENOENT'')
      then js ''The file or directory does not exist''
      else text)"

section \<open>\<^verbatim>\<open>S3Utils.uploadToS3\<close>\<close>

type_synonym bytes = "8 word list"

text \<open>Rendering in a template literal: a number in decimal, a missing value as \<^verbatim>\<open>undefined\<close>.\<close>

fun decimal :: "nat \<Rightarrow> js_string" where
  "decimal n = (if n < 10 then [of_nat (48 + n)] else decimal (n div 10) @ [of_nat (48 + n mod 10)])"

declare decimal.simps [simp del]

definition render :: "js_string option \<Rightarrow> js_string" where
  "render v = (case v of None \<Rightarrow> js ''undefined'' | Some s \<Rightarrow> s)"

text \<open>\<^verbatim>\<open>s.replace(/\/$/, '')\<close>: one trailing slash, if present, is removed.\<close>

definition stripTrailingSlash :: "js_string \<Rightarrow> js_string" where
  "stripTrailingSlash s = (if s \<noteq> [] \<and> last s = 0x2F then butlast s else s)"

text \<open>
  \<^verbatim>\<open>s.split(sep)\<close>: the pieces between the occurrences of \<open>sep\<close>, found from left to right
  without overlap; with an empty separator, the code units one by one.
\<close>

fun split_from :: "js_string \<Rightarrow> js_string \<Rightarrow> js_string \<Rightarrow> js_string list" where
  "split_from sep piece [] = [rev piece]"
| "split_from sep piece (c # cs) =
     (if sep \<noteq> [] \<and> prefix sep (c # cs)
      then rev piece # split_from sep [] (drop (length sep - 1) cs)
      else split_from sep (c # piece) cs)"

definition split :: "js_string \<Rightarrow> js_string \<Rightarrow> js_string list" where
  "split s sep = (if sep = [] then map (\<lambda>c. [c]) s else split_from sep [] s)"

definition element :: "js_string list \<Rightarrow> nat \<Rightarrow> js_string option" where
  "element xs i = (if i < length xs then Some (xs ! i) else None)"

record s3_credentials =
  region :: js_string
  accessKeyId :: js_string
  secretAccessKey :: js_string
  endpoint :: js_string
  forcePathStyle :: bool

datatype upload_outcome = Stored | Rejected js_error

text \<open>
  What the function reads from outside: the stored credentials (absent when none are
  configured), the identifier \<^verbatim>\<open>ulid()\<close> returns, \<^verbatim>\<open>mime.getExtension\<close>, and the outcome of the
  \<open>n\<close>-th call of \<^verbatim>\<open>upload.done()\<close>, counted from 1.
\<close>

record s3_env =
  getCredentials :: "s3_credentials option"
  ulid :: js_string
  getExtension :: "js_string \<Rightarrow> js_string option"
  upload_done :: "nat \<Rightarrow> upload_outcome"

text \<open>
  What the function does: its result (the public URL, or the error thrown), the number of
  calls of \<^verbatim>\<open>upload.done()\<close> it made, and the delays in milliseconds it slept, in order.
\<close>

record upload_run =
  outcome :: "thrown + js_string"
  attempts :: nat
  delays :: "nat list"

definition isNetworkError :: "js_error \<Rightarrow> bool" where
  "isNetworkError error \<longleftrightarrow>
     err_code error = Some (js ''ENOTFOUND'') \<or> err_code error = Some (js ''EAI_AGAIN'')
     \<or> err_name error = js ''TimeoutError''"

text \<open>The URL built after a successful \<^verbatim>\<open>upload.done()\<close> (the variable \<^verbatim>\<open>publicUrl\<close>).\<close>

definition publicUrl ::
  "js_string option \<Rightarrow> js_string \<Rightarrow> bool \<Rightarrow> js_string \<Rightarrow> js_string \<Rightarrow> js_string \<Rightarrow> js_string" where
  "publicUrl publicDomain endpoint' forcePathStyle' region' bucketName fileName =
     (if (case publicDomain of None \<Rightarrow> False | Some d \<Rightarrow> d \<noteq> [] \<and> trim d \<noteq> [])
      then
        let cleanDomain = stripTrailingSlash (the publicDomain)
        in cleanDomain @ js ''/'' @ fileName
      else if endpoint' \<noteq> [] then
        let cleanEndpoint = stripTrailingSlash endpoint'
        in if forcePathStyle' then cleanEndpoint @ js ''/'' @ bucketName @ js ''/'' @ fileName
           else
             let protocol = element (split cleanEndpoint (js ''://'')) 0;
                 domain = element (split cleanEndpoint (js ''://'')) 1
             in render protocol @ js ''://'' @ bucketName @ js ''.'' @ render domain
                  @ js ''/'' @ fileName
      else js ''https://'' @ bucketName @ js ''.s3.'' @ region' @ js ''.amazonaws.com/'' @ fileName)"

definition uploadFailure :: "nat \<Rightarrow> js_error option \<Rightarrow> thrown" where
  "uploadFailure maxRetries lastError =
     NodeOperationError
       (js ''Failed to upload to S3 after '' @ decimal maxRetries @ js '' attempts: ''
        @ render (case lastError of None \<Rightarrow> None | Some e \<Rightarrow> err_message e))"

text \<open>
  The retry loop, entered with \<open>attempt = 1\<close>. \<open>made\<close> counts the calls of
  \<^verbatim>\<open>upload.done()\<close> so far and \<open>slept\<close> lists the delays so far.
\<close>

function uploadLoop ::
  "(nat \<Rightarrow> upload_outcome) \<Rightarrow> js_string \<Rightarrow> nat \<Rightarrow> nat \<Rightarrow> js_error option \<Rightarrow> nat list
     \<Rightarrow> upload_run" where
  "uploadLoop upload url maxRetries attempt lastError slept =
     (if attempt \<le> maxRetries then
        (case upload attempt of
           Stored \<Rightarrow> \<lparr>outcome = Inr url, attempts = attempt, delays = slept\<rparr>
         | Rejected error \<Rightarrow>
             if attempt = maxRetries \<or> \<not> isNetworkError error
             then \<lparr>outcome = Inl (uploadFailure maxRetries (Some error)),
                   attempts = attempt, delays = slept\<rparr>
             else
               let delay = 2 ^ attempt * 100
               in uploadLoop upload url maxRetries (attempt + 1) (Some error) (slept @ [delay]))
      else \<lparr>outcome = Inl (uploadFailure maxRetries lastError),
             attempts = attempt - 1, delays = slept\<rparr>)"
  by pat_completeness auto
termination
  by (relation "measure (\<lambda>(upload, url, maxRetries, attempt, lastError, slept).
        maxRetries + 1 - attempt)") auto

declare uploadLoop.simps [simp del]

definition uploadToS3 ::
  "s3_env \<Rightarrow> bytes \<Rightarrow> js_string \<Rightarrow> js_string \<Rightarrow> js_string \<Rightarrow> nat \<Rightarrow> js_string option
     \<Rightarrow> upload_run" where
  "uploadToS3 env data mimeType bucketName fileNamePrefix maxRetries publicDomain =
     (case getCredentials env of
        None \<Rightarrow>
          \<lparr>outcome = Inl (NodeOperationError
               (js ''S3 credentials are required for upload but not provided.'')),
            attempts = 0, delays = []\<rparr>
      | Some credentials \<Rightarrow>
          let region' = (if region credentials \<noteq> [] then region credentials else js ''us-east-1'');
              endpoint' = endpoint credentials;
              forcePathStyle' = forcePathStyle credentials;
              fileExtension =
                (case getExtension env mimeType of
                   None \<Rightarrow> js ''bin''
                 | Some e \<Rightarrow> if e \<noteq> [] then e else js ''bin'');
              fileName = fileNamePrefix @ js ''_'' @ ulid env @ js ''.'' @ fileExtension
          in uploadLoop (upload_done env)
               (publicUrl publicDomain endpoint' forcePathStyle' region' bucketName fileName)
               maxRetries 1 None [])"

text \<open>Two concrete environments, used to run the function on explicit inputs.\<close>

definition dns_failure :: js_error where
  "dns_failure =
     \<lparr>err_name = js ''Error'', err_message = Some (js ''getaddrinfo ENOTFOUND''),
      err_code = Some (js ''ENOTFOUND'')\<rparr>"

definition minio_credentials :: s3_credentials where
  "minio_credentials =
     \<lparr>region = [], accessKeyId = js ''id'', secretAccessKey = js ''secret'',
      endpoint = js ''http://minio.local:9000/'', forcePathStyle = False\<rparr>"

definition flaky_env :: s3_env where
  "flaky_env =
     \<lparr>getCredentials = Some minio_credentials, ulid = js ''01ARZ'',
      getExtension = (\<lambda>m. if m = js ''image/png'' then Some (js ''png'') else None),
      upload_done = (\<lambda>n. if n < 3 then Rejected dns_failure else Stored)\<rparr>"

definition aws_credentials :: s3_credentials where
  "aws_credentials =
     \<lparr>region = [], accessKeyId = js ''id'', secretAccessKey = js ''secret'',
      endpoint = [], forcePathStyle = False\<rparr>"

definition aws_env :: s3_env where
  "aws_env =
     \<lparr>getCredentials = Some aws_credentials, ulid = js ''01ARZ'',
      getExtension = (\<lambda>m. if m = js ''image/png'' then Some (js ''png'') else None),
      upload_done = (\<lambda>n. Stored)\<rparr>"

section \<open>\<^verbatim>\<open>VideoUtils.createVideoObject\<close>\<close>

record VideoObject =
  uri :: js_string

text \<open>The character class \<^verbatim>\<open>[a-zA-Z0-9_-]\<close> and the regular expression \<^verbatim>\<open>/^[a-zA-Z0-9_-]+$/\<close>.\<close>

definition isFileIdChar :: "code_unit \<Rightarrow> bool" where
  "isFileIdChar c \<longleftrightarrow>
     (0x61 \<le> c \<and> c \<le> 0x7A) \<or> (0x41 \<le> c \<and> c \<le> 0x5A) \<or>
     (0x30 \<le> c \<and> c \<le> 0x39) \<or> c = 0x5F \<or> c = 0x2D"

definition matchesFileId :: "js_string \<Rightarrow> bool" where
  "matchesFileId s \<longleftrightarrow> s \<noteq> [] \<and> list_all isFileIdChar s"

definition invalidVideoUriMessage :: "js_string \<Rightarrow> js_string" where
  "invalidVideoUriMessage trimmedUri =
     js ''Invalid video URI format. Expected a Gemini files API URI like:'' @ [LF] @
     js ''- Full URL: https://generativelanguage.googleapis.com/v1beta/files/abc123'' @ [LF] @
     js ''- Files path: files/abc123'' @ [LF] @
     js ''- File ID: abc123'' @ [LF] @
     js ''Received: '' @ take 100 trimmedUri @ js ''...''"

definition createVideoObject :: "js_string \<Rightarrow> thrown + VideoObject" where
  "createVideoObject videoUri =
     (if videoUri = [] \<or> trim videoUri = [] then Inl (JsError (Error (js ''Video URI cannot be empty'')))
      else
        let trimmedUri = trim videoUri;
            isValidFormat =
              (includes_str trimmedUri (js ''generativelanguage.googleapis.com'') \<or>
               startsWith trimmedUri (js ''files/'') \<or>
               matchesFileId trimmedUri)
        in if \<not> isValidFormat then Inl (JsError (Error (invalidVideoUriMessage trimmedUri)))
           else
             let finalUri =
               (if matchesFileId trimmedUri then js ''files/'' @ trimmedUri else trimmedUri)
             in Inr \<lparr>uri = finalUri\<rparr>)"

section \<open>The \<^verbatim>\<open>generateVideo\<close> branch up to the submission of the request\<close>

text \<open>
  \<^verbatim>\<open>parseInt(s, 10)\<close>: leading white space is skipped, a sign is read, and the longest run of
  decimal digits that follows is the value; without a digit the result is \<^verbatim>\<open>NaN\<close>, here \<open>None\<close>.
\<close>

definition isDigit :: "code_unit \<Rightarrow> bool" where
  "isDigit c \<longleftrightarrow> 0x30 \<le> c \<and> c \<le> 0x39"

definition digitsValue :: "js_string \<Rightarrow> int" where
  "digitsValue ds = foldl (\<lambda>v c. 10 * v + (uint c - 48)) 0 ds"

definition parseInt10 :: "js_string \<Rightarrow> int option" where
  "parseInt10 s =
     (let t = dropWhile isWhiteSpace s;
          negative = (t \<noteq> [] \<and> hd t = 0x2D);
          u = (if t \<noteq> [] \<and> (hd t = 0x2D \<or> hd t = 0x2B) then tl t else t);
          ds = takeWhile isDigit u
      in if ds = [] then None
         else Some (if negative then - digitsValue ds else digitsValue ds))"

text \<open>
  The two \<^verbatim>\<open>durationSeconds\<close> entries of \<^verbatim>\<open>generateVideoFields\<close>: the resolutions for which the
  entry is shown, the values its option list offers, and its default.
\<close>

record options_field =
  field_name :: js_string
  show_resolution :: "js_string list"
  option_values :: "js_string list"
  field_default :: js_string

definition durationSecondsFields :: "options_field list" where
  "durationSecondsFields =
     [\<lparr>field_name = js ''durationSeconds'', show_resolution = [js ''720p''],
       option_values = [js ''4'', js ''6'', js ''8''], field_default = js ''8''\<rparr>,
      \<lparr>field_name = js ''durationSeconds'', show_resolution = [js ''1080p''],
       option_values = [js ''8''], field_default = js ''8''\<rparr>]"

definition offeredDurations :: "js_string \<Rightarrow> js_string list" where
  "offeredDurations resolution' =
     concat (map option_values
       (filter (\<lambda>f. resolution' \<in> set (show_resolution f)) durationSecondsFields))"

text \<open>\<^verbatim>\<open>VideoUtils.validateParameters\<close>, on the four fields it reads.\<close>

definition validateParameters ::
  "js_string \<Rightarrow> js_string \<Rightarrow> js_string \<Rightarrow> js_string list \<Rightarrow> js_string \<Rightarrow> thrown + unit" where
  "validateParameters mode videoPrompt' startFrameUrl' referenceImages' inputVideoUri' =
     (if mode = js ''textToVideo'' then
        if videoPrompt' = [] \<or> trim videoPrompt' = []
        then Inl (NodeOperationError (js ''Video prompt is required for text-to-video mode''))
        else Inr ()
      else if mode = js ''framesToVideo'' then
        if startFrameUrl' = [] \<or> trim startFrameUrl' = []
        then Inl (NodeOperationError (js ''Start frame URL is required for frames-to-video mode''))
        else Inr ()
      else if mode = js ''referencesToVideo'' then
        if referenceImages' = []
        then Inl (NodeOperationError
               (js ''At least one reference image is required for references-to-video mode''))
        else Inr ()
      else if mode = js ''extendVideo'' then
        if inputVideoUri' = [] \<or> trim inputVideoUri' = []
        then Inl (NodeOperationError (js ''Input video URI is required for extend-video mode''))
        else Inr ()
      else Inl (NodeOperationError (js ''Unknown generation mode: '' @ mode)))"

record VideoGenerationImage =
  imageBytes :: js_string
  image_mimeType :: js_string

text \<open>
  \<^verbatim>\<open>VideoUtils.fetchImageForVideo\<close>; the download \<^verbatim>\<open>ImageUtils.urlToBase64WithMimeType\<close> is an
  argument.
\<close>

definition fetchImageForVideo ::
  "(js_string \<Rightarrow> js_error + js_string \<times> js_string) \<Rightarrow> js_string
     \<Rightarrow> thrown + VideoGenerationImage" where
  "fetchImageForVideo urlToBase64WithMimeType imageUrl =
     (if imageUrl = [] \<or> trim imageUrl = []
      then Inl (NodeOperationError (js ''Image URL cannot be empty''))
      else
        (case urlToBase64WithMimeType imageUrl of
           Inr (data, mimeType) \<Rightarrow> Inr \<lparr>imageBytes = data, image_mimeType = mimeType\<rparr>
         | Inl error \<Rightarrow>
             Inl (NodeOperationError
                   (js ''Failed to fetch image from URL: '' @ imageUrl @ js ''. Error: ''
                    @ render (err_message error)))))"

text \<open>The node parameters of one item, as \<^verbatim>\<open>getNodeParameter\<close> returns them.\<close>

record video_params =
  videoModel :: js_string
  generationMode :: js_string
  videoPrompt :: js_string
  negativePrompt :: js_string
  resolution :: js_string
  durationSeconds :: js_string
  personGeneration :: js_string
  generateAudio :: bool
  aspectRatio :: js_string
  startFrameUrl :: js_string
  enableLooping :: bool
  endFrameUrl :: js_string
  referenceImages :: "js_string list"
  styleImageUrl :: js_string
  inputVideoUri :: js_string

record reference_image =
  ref_image :: VideoGenerationImage
  referenceType :: js_string

text \<open>\<^verbatim>\<open>VideoUtils.buildVideoConfig\<close> and the fields the branch adds to its result.\<close>

record video_config =
  cfg_numberOfVideos :: nat
  cfg_resolution :: js_string
  cfg_aspectRatio :: "js_string option"
  cfg_durationSeconds :: "int option"
  cfg_personGeneration :: "js_string option"
  cfg_lastFrame :: "VideoGenerationImage option"
  cfg_referenceImages :: "reference_image list option"

definition buildVideoConfig :: "js_string \<Rightarrow> js_string option \<Rightarrow> nat \<Rightarrow> video_config" where
  "buildVideoConfig resolution' aspectRatio' numberOfVideos =
     \<lparr>cfg_numberOfVideos = (if numberOfVideos \<noteq> 0 then numberOfVideos else 1),
      cfg_resolution = resolution',
      cfg_aspectRatio = (case aspectRatio' of None \<Rightarrow> None
                         | Some a \<Rightarrow> if a \<noteq> [] then Some a else None),
      cfg_durationSeconds = None, cfg_personGeneration = None, cfg_lastFrame = None,
      cfg_referenceImages = None\<rparr>"

record video_payload =
  payload_model :: js_string
  payload_config :: video_config
  payload_prompt :: "js_string option"
  payload_negativePrompt :: "js_string option"
  payload_image :: "VideoGenerationImage option"
  payload_video :: "VideoObject option"

text \<open>\<^verbatim>\<open>for (const refImg of referenceImagesData)\<close>: blank URLs are skipped, a failed fetch throws.\<close>

fun fetchAssets ::
  "(js_string \<Rightarrow> js_error + js_string \<times> js_string) \<Rightarrow> js_string list
     \<Rightarrow> thrown + reference_image list" where
  "fetchAssets fetch [] = Inr []"
| "fetchAssets fetch (imageUrl # rest) =
     (if imageUrl \<noteq> [] \<and> trim imageUrl \<noteq> [] then
        (case fetchImageForVideo fetch imageUrl of
           Inl error \<Rightarrow> Inl error
         | Inr img \<Rightarrow>
             (case fetchAssets fetch rest of
                Inl error \<Rightarrow> Inl error
              | Inr images \<Rightarrow> Inr (\<lparr>ref_image = img, referenceType = js ''ASSET''\<rparr> # images)))
      else fetchAssets fetch rest)"

text \<open>
  The payload as it stands before the generation mode is looked at: the configuration with
  duration and person generation, the prompt with the silent-film prefix when audio is off,
  and the negative prompt.
\<close>

definition generateVideoPayload :: "video_params \<Rightarrow> video_payload" where
  "generateVideoPayload p =
     (let durationSeconds' = parseInt10 (durationSeconds p);
          aspectRatio' = (if generationMode p \<noteq> js ''extendVideo'' then Some (aspectRatio p)
                          else None);
          config = buildVideoConfig (resolution p) aspectRatio' 1;
          config = config\<lparr>cfg_durationSeconds := durationSeconds'\<rparr>;
          config = (if personGeneration p \<noteq> []
                    then config\<lparr>cfg_personGeneration := Some (personGeneration p)\<rparr>
                    else config);
          finalPrompt = (if videoPrompt p \<noteq> [] \<and> trim (videoPrompt p) \<noteq> []
                         then trim (videoPrompt p) else []);
          finalPrompt =
            (if \<not> generateAudio p \<and> finalPrompt \<noteq> []
             then js ''[Silent film, no audio, no sound effects, no background music] ''
                    @ finalPrompt
             else finalPrompt)
      in \<lparr>payload_model = videoModel p, payload_config = config,
          payload_prompt = (if finalPrompt \<noteq> [] then Some finalPrompt else None),
          payload_negativePrompt =
            (if negativePrompt p \<noteq> [] \<and> trim (negativePrompt p) \<noteq> []
             then Some (negativePrompt p) else None),
          payload_image = None, payload_video = None\<rparr>)"

text \<open>
  The three mode-specific blocks of the branch (\<^verbatim>\<open>framesToVideo\<close>, \<^verbatim>\<open>referencesToVideo\<close>,
  \<^verbatim>\<open>extendVideo\<close>): each extends the payload or throws.
\<close>

definition framesToVideoBlock ::
  "(js_string \<Rightarrow> js_error + js_string \<times> js_string) \<Rightarrow> video_params \<Rightarrow> video_payload
     \<Rightarrow> thrown + video_payload" where
  "framesToVideoBlock fetch p payload =
     (case fetchImageForVideo fetch (startFrameUrl p) of
        Inl error \<Rightarrow> Inl error
      | Inr startFrame \<Rightarrow>
          let payload = payload\<lparr>payload_image := Some startFrame\<rparr>;
              finalEndFrameUrl = (if enableLooping p then startFrameUrl p else endFrameUrl p)
          in if finalEndFrameUrl \<noteq> [] \<and> trim finalEndFrameUrl \<noteq> [] then
               (case fetchImageForVideo fetch finalEndFrameUrl of
                  Inl error \<Rightarrow> Inl error
                | Inr endFrame \<Rightarrow>
                    Inr (payload\<lparr>payload_config :=
                           (payload_config payload)\<lparr>cfg_lastFrame := Some endFrame\<rparr>\<rparr>))
             else Inr payload)"

definition referencesToVideoBlock ::
  "(js_string \<Rightarrow> js_error + js_string \<times> js_string) \<Rightarrow> video_params \<Rightarrow> video_payload
     \<Rightarrow> thrown + video_payload" where
  "referencesToVideoBlock fetch p payload =
     (case fetchAssets fetch (referenceImages p) of
        Inl error \<Rightarrow> Inl error
      | Inr assets \<Rightarrow>
          (case (if styleImageUrl p \<noteq> [] \<and> trim (styleImageUrl p) \<noteq> []
                 then (case fetchImageForVideo fetch (styleImageUrl p) of
                         Inl error \<Rightarrow> Inl error
                       | Inr styleImage \<Rightarrow>
                           Inr (assets @ [\<lparr>ref_image = styleImage,
                                            referenceType = js ''STYLE''\<rparr>]))
                 else Inr assets) of
             Inl error \<Rightarrow> Inl error
           | Inr referenceImagesPayload \<Rightarrow>
               if referenceImagesPayload \<noteq> [] then
                 Inr (payload\<lparr>payload_config :=
                        (payload_config payload)\<lparr>cfg_referenceImages :=
                           Some referenceImagesPayload\<rparr>\<rparr>)
               else Inr payload))"

definition extendVideoBlock :: "video_params \<Rightarrow> video_payload \<Rightarrow> thrown + video_payload" where
  "extendVideoBlock p payload =
     (case createVideoObject (inputVideoUri p) of
        Inl error \<Rightarrow> Inl error
      | Inr videoObject \<Rightarrow> Inr (payload\<lparr>payload_video := Some videoObject\<rparr>))"

text \<open>
  The branch from reading the parameters to the call \<^verbatim>\<open>ai.models.generateVideos(payload)\<close>: the
  result is the payload submitted, or the error thrown before anything is submitted.
\<close>

definition generateVideoRequest ::
  "(js_string \<Rightarrow> js_error + js_string \<times> js_string) \<Rightarrow> video_params \<Rightarrow> thrown + video_payload" where
  "generateVideoRequest fetch p =
     (let mode = generationMode p
      in case validateParameters mode (videoPrompt p)
                (if mode = js ''framesToVideo'' then startFrameUrl p else [])
                (if mode = js ''referencesToVideo'' then referenceImages p else [])
                (if mode = js ''extendVideo'' then inputVideoUri p else []) of
           Inl error \<Rightarrow> Inl error
         | Inr u \<Rightarrow>
             let payload = generateVideoPayload p
             in if mode = js ''framesToVideo'' then framesToVideoBlock fetch p payload
                else if mode = js ''referencesToVideo'' then referencesToVideoBlock fetch p payload
                else if mode = js ''extendVideo'' then extendVideoBlock p payload
                else Inr payload)"

text \<open>A payload with its resolution and duration replaced.\<close>

definition withDuration :: "js_string \<Rightarrow> int option \<Rightarrow> video_payload \<Rightarrow> video_payload" where
  "withDuration r d payload =
     payload\<lparr>payload_config := (payload_config payload)\<lparr>cfg_resolution := r,
        cfg_durationSeconds := d\<rparr>\<rparr>"

text \<open>A text-to-video request for four seconds at 1080p.\<close>

definition four_seconds_1080p :: video_params where
  "four_seconds_1080p =
     \<lparr>videoModel = js ''veo-3.1-generate-preview'', generationMode = js ''textToVideo'',
      videoPrompt = js ''a cat'', negativePrompt = [], resolution = js ''1080p'',
      durationSeconds = js ''4'', personGeneration = [], generateAudio = True,
      aspectRatio = js ''16:9'', startFrameUrl = [], enableLooping = False, endFrameUrl = [],
      referenceImages = [], styleImageUrl = [], inputVideoUri = []\<rparr>"

definition no_download :: "js_string \<Rightarrow> js_error + js_string \<times> js_string" where
  "no_download imageUrl = Inl (Error (js ''offline''))"

section \<open>Validation of the finished video operation\<close>

text \<open>
  \<^verbatim>\<open>decodeURIComponent\<close> (ECMA-262, Decode with an empty set of preserved characters): a code
  unit other than \<^verbatim>\<open>%\<close> is kept; \<^verbatim>\<open>%XX\<close> with a byte below \<^verbatim>\<open>0x80\<close> is that character; a lead byte of
  a UTF-8 sequence of two to four bytes must be followed by the right number of escaped
  continuation bytes, and the sequence must be the shortest encoding of a code point that is
  not a surrogate, which is then written in UTF-16. Anything else throws a \<^verbatim>\<open>URIError\<close>, here
  \<open>None\<close>.
\<close>

definition hexDigit :: "code_unit \<Rightarrow> nat option" where
  "hexDigit c =
     (if 0x30 \<le> c \<and> c \<le> 0x39 then Some (unat c - 48)
      else if 0x41 \<le> c \<and> c \<le> 0x46 then Some (unat c - 55)
      else if 0x61 \<le> c \<and> c \<le> 0x66 then Some (unat c - 87)
      else None)"

fun percentByte :: "js_string \<Rightarrow> nat option" where
  "percentByte (p # h1 # h2 # rest) =
     (if p = 0x25 then
        (case (hexDigit h1, hexDigit h2) of
           (Some a, Some b) \<Rightarrow> Some (16 * a + b)
         | _ \<Rightarrow> None)
      else None)"
| "percentByte s = None"

fun continuationBytes :: "nat \<Rightarrow> js_string \<Rightarrow> nat list option" where
  "continuationBytes 0 s = Some []"
| "continuationBytes (Suc k) s =
     (case percentByte s of
        None \<Rightarrow> None
      | Some b \<Rightarrow> map_option ((#) b) (continuationBytes k (drop 3 s)))"

definition utf8CodePoint :: "nat \<Rightarrow> nat list \<Rightarrow> nat option" where
  "utf8CodePoint lead cs =
     (if \<not> list_all (\<lambda>c. 0x80 \<le> c \<and> c < 0xC0) cs then None
      else if 0xC2 \<le> lead \<and> lead < 0xE0 \<and> length cs = 1 then
        Some ((lead - 0xC0) * 64 + (cs ! 0 - 0x80))
      else if 0xE0 \<le> lead \<and> lead < 0xF0 \<and> length cs = 2 then
        let v = (lead - 0xE0) * 4096 + (cs ! 0 - 0x80) * 64 + (cs ! 1 - 0x80)
        in if v < 0x800 \<or> (0xD800 \<le> v \<and> v \<le> 0xDFFF) then None else Some v
      else if 0xF0 \<le> lead \<and> lead < 0xF8 \<and> length cs = 3 then
        let v = (lead - 0xF0) * 262144 + (cs ! 0 - 0x80) * 4096 + (cs ! 1 - 0x80) * 64
                  + (cs ! 2 - 0x80)
        in if v < 0x10000 \<or> 0x10FFFF < v then None else Some v
      else None)"

definition utf16Encode :: "nat \<Rightarrow> js_string" where
  "utf16Encode v =
     (if v < 0x10000 then [of_nat v]
      else [of_nat (0xD800 + (v - 0x10000) div 1024), of_nat (0xDC00 + (v - 0x10000) mod 1024)])"

definition sequenceLength :: "nat \<Rightarrow> nat" where
  "sequenceLength lead =
     (if lead < 0xC0 then 1 else if lead < 0xE0 then 2 else if lead < 0xF0 then 3
      else if lead < 0xF8 then 4 else 5)"

fun decodeURIComponent :: "js_string \<Rightarrow> js_string option" where
  "decodeURIComponent [] = Some []"
| "decodeURIComponent (c # cs) =
     (if c \<noteq> 0x25 then map_option ((#) c) (decodeURIComponent cs)
      else
        (case percentByte (c # cs) of
           None \<Rightarrow> None
         | Some b \<Rightarrow>
             if b < 0x80 then map_option ((#) (of_nat b)) (decodeURIComponent (drop 2 cs))
             else if sequenceLength b = 1 \<or> 4 < sequenceLength b then None
             else
               (case continuationBytes (sequenceLength b - 1) (drop 2 cs) of
                  None \<Rightarrow> None
                | Some octets \<Rightarrow>
                    (case utf8CodePoint b octets of
                       None \<Rightarrow> None
                     | Some v \<Rightarrow>
                         map_option ((@) (utf16Encode v))
                           (decodeURIComponent (drop (2 + 3 * (sequenceLength b - 1)) cs))))))"

definition URIError :: js_error where
  "URIError = \<lparr>err_name = js ''URIError'', err_message = Some (js ''URI malformed''),
                err_code = None\<rparr>"

text \<open>\<^verbatim>\<open>xs.join(sep)\<close>\<close>

fun join :: "js_string list \<Rightarrow> js_string \<Rightarrow> js_string" where
  "join [] sep = []"
| "join [x] sep = x"
| "join (x # y # ys) sep = x @ sep @ join (y # ys) sep"

text \<open>
  The response of the finished operation, as far as the branch reads it. \<open>resp_error\<close> is
  the value of \<^verbatim>\<open>response.error\<close>, absent when it is missing or falsy;
  \<open>generateVideoResponse\<close> is the raw object of that name, absent or with its own, possibly
  absent, \<^verbatim>\<open>generatedSamples\<close>.
\<close>

record video_file =
  video_uri :: "js_string option"

record generated_video =
  gen_video :: "video_file option"

record 'j video_response =
  resp_error :: "'j option"
  raiMediaFilteredCount :: "int option"
  raiMediaFilteredReasons :: "js_string list option"
  generatedVideos :: "generated_video list option"
  generateVideoResponse :: "generated_video list option option"

text \<open>
  The checks between the polling loop and the download. \<^verbatim>\<open>JSON.stringify\<close> is an argument,
  once for the error value and once for the whole response. The result is the variable
  \<^verbatim>\<open>videoUri\<close>, or the error thrown.
\<close>

definition validateVideoResponse ::
  "('j \<Rightarrow> js_string) \<Rightarrow> ('j video_response \<Rightarrow> js_string) \<Rightarrow> 'j video_response option
     \<Rightarrow> thrown + js_string" where
  "validateVideoResponse stringifyError stringifyResponse response =
     (case response of
        None \<Rightarrow> Inl (NodeOperationError (js ''Video generation failed: No response from API''))
      | Some responseAny \<Rightarrow>
          (case resp_error responseAny of
             Some error \<Rightarrow>
               Inl (NodeOperationError (js ''Video generation failed: '' @ stringifyError error))
           | None \<Rightarrow>
               if (case raiMediaFilteredCount responseAny of
                     None \<Rightarrow> False | Some count \<Rightarrow> count \<noteq> 0 \<and> count > 0)
               then
                 let reasons = (case raiMediaFilteredReasons responseAny of
                                  None \<Rightarrow> [] | Some rs \<Rightarrow> rs)
                 in Inl (NodeOperationError
                          (js ''Video generation was blocked by safety filters.'' @ [LF]
                           @ js ''Reasons: '' @ join reasons (js ''; '') @ [LF, LF]
                           @ js ''Please try modifying your prompt or using different images.''))
               else
                 let generatedSamples =
                       (case generatedVideos responseAny of
                          Some videos \<Rightarrow> Some videos
                        | None \<Rightarrow>
                            (case generateVideoResponse responseAny of
                               None \<Rightarrow> None
                             | Some raw \<Rightarrow> raw))
                 in (case generatedSamples of
                       None \<Rightarrow>
                         Inl (NodeOperationError
                               (js ''No videos were generated. Response: ''
                                @ take 500 (stringifyResponse responseAny)))
                     | Some [] \<Rightarrow>
                         Inl (NodeOperationError
                               (js ''No videos were generated. Response: ''
                                @ take 500 (stringifyResponse responseAny)))
                     | Some (firstVideo # others) \<Rightarrow>
                         (case gen_video firstVideo of
                            None \<Rightarrow> Inl (NodeOperationError (js ''Generated video is missing URI''))
                          | Some videoObject \<Rightarrow>
                              (case video_uri videoObject of
                                 None \<Rightarrow>
                                   Inl (NodeOperationError (js ''Generated video is missing URI''))
                               | Some u \<Rightarrow>
                                   if u = [] then
                                     Inl (NodeOperationError (js ''Generated video is missing URI''))
                                   else
                                     (case decodeURIComponent u of
                                        None \<Rightarrow> Inl (JsError URIError)
                                      | Some videoUri \<Rightarrow>
                                          if videoUri = [] then
                                            Inl (NodeOperationError
                                                  (js ''Generated video URI is empty''))
                                          else Inr videoUri))))))"

text \<open>The samples the branch looks at, and two responses to run it on.\<close>

definition generatedSamplesOf :: "'j video_response \<Rightarrow> generated_video list option" where
  "generatedSamplesOf r =
     (case generatedVideos r of
        Some videos \<Rightarrow> Some videos
      | None \<Rightarrow> (case generateVideoResponse r of None \<Rightarrow> None | Some raw \<Rightarrow> raw))"

definition response_with_uri :: "js_string \<Rightarrow> js_string video_response" where
  "response_with_uri u =
     \<lparr>resp_error = None, raiMediaFilteredCount = None, raiMediaFilteredReasons = None,
      generatedVideos = Some [\<lparr>gen_video = Some \<lparr>video_uri = Some u\<rparr>\<rparr>,
                              \<lparr>gen_video = Some \<lparr>video_uri = Some (js ''second'')\<rparr>\<rparr>],
      generateVideoResponse = None\<rparr>"

section \<open>The polling loop of the \<^verbatim>\<open>generateVideo\<close> branch\<close>

















section \<open>Multi-speaker voice assignment of the \<^verbatim>\<open>generateTTS\<close> branch\<close>

definition maleVoices :: "js_string list" where
  "maleVoices =
     [js ''Puck'', js ''Charon'', js ''Fenrir'', js ''Orus'', js ''Enceladus'', js ''Iapetus'',
      js ''Umbriel'', js ''Algieba'', js ''Algenib'', js ''Rasalgethi'', js ''Alnilam'',
      js ''Schedar'', js ''Achird'', js ''Zubenelgenubi'', js ''Sadachbia'', js ''Sadaltager'']"

definition femaleVoices :: "js_string list" where
  "femaleVoices =
     [js ''Zephyr'', js ''Kore'', js ''Leda'', js ''Aoede'', js ''Callirrhoe'', js ''Autonoe'',
      js ''Despina'', js ''Erinome'', js ''Laomedeia'', js ''Achernar'', js ''Gacrux'',
      js ''Pulcherrima'', js ''Vindemiatrix'', js ''Sulafat'']"

definition allVoices :: "js_string list" where
  "allVoices = maleVoices @ femaleVoices"

record speaker =
  speakerLabel :: js_string
  voiceName :: js_string

record speaker_voice_config =
  cfg_speaker :: js_string
  cfg_voiceName :: js_string

text \<open>
  \<^verbatim>\<open>xs[Math.floor(Math.random() * xs.length)]\<close>: the random source is an argument, a number
  \<open>r\<close> that selects the index \<open>r mod length xs\<close>, so that every index of \<open>xs\<close> can be drawn.
\<close>

definition pickRandom :: "js_string list \<Rightarrow> nat \<Rightarrow> js_string" where
  "pickRandom xs r = xs ! (r mod length xs)"

text \<open>The voice one speaker gets, given the set \<^verbatim>\<open>usedVoices\<close> and the draw \<open>r\<close>.\<close>

definition chooseVoice :: "js_string set \<Rightarrow> js_string \<Rightarrow> nat \<Rightarrow> js_string" where
  "chooseVoice usedVoices voiceName' r =
     (if voiceName' = js ''__random__'' then
        let availableVoices = filter (\<lambda>v. v \<notin> usedVoices) allVoices
        in if availableVoices = [] then pickRandom allVoices r
           else pickRandom availableVoices r
      else if voiceName' = js ''__random_male__'' then
        let availableMaleVoices = filter (\<lambda>v. v \<notin> usedVoices) maleVoices
        in if availableMaleVoices = [] then pickRandom maleVoices r
           else pickRandom availableMaleVoices r
      else if voiceName' = js ''__random_female__'' then
        let availableFemaleVoices = filter (\<lambda>v. v \<notin> usedVoices) femaleVoices
        in if availableFemaleVoices = [] then pickRandom femaleVoices r
           else pickRandom availableFemaleVoices r
      else voiceName')"

text \<open>
  \<^verbatim>\<open>speakerVoices.map((speaker) => ...)\<close> with the set \<^verbatim>\<open>usedVoices\<close> it updates; \<open>random k\<close> is
  the draw of the \<open>k\<close>-th speaker.
\<close>

fun assignVoices ::
  "(nat \<Rightarrow> nat) \<Rightarrow> nat \<Rightarrow> js_string set \<Rightarrow> speaker list \<Rightarrow> speaker_voice_config list" where
  "assignVoices random k usedVoices [] = []"
| "assignVoices random k usedVoices (s # speakers) =
     (let voiceName' = chooseVoice usedVoices (voiceName s) (random k)
      in \<lparr>cfg_speaker = speakerLabel s, cfg_voiceName = voiceName'\<rparr>
           # assignVoices random (k + 1) (insert voiceName' usedVoices) speakers)"

definition speakerVoiceConfigs :: "(nat \<Rightarrow> nat) \<Rightarrow> speaker list \<Rightarrow> speaker_voice_config list" where
  "speakerVoiceConfigs random speakerVoices = assignVoices random 0 {} speakerVoices"

text \<open>The pool of a random category, and the voices given to the speakers before position \<open>i\<close>.\<close>

definition pool :: "js_string \<Rightarrow> js_string list" where
  "pool category =
     (if category = js ''__random__'' then allVoices
      else if category = js ''__random_male__'' then maleVoices
      else if category = js ''__random_female__'' then femaleVoices
      else [])"

definition assignedBefore :: "speaker_voice_config list \<Rightarrow> nat \<Rightarrow> js_string set" where
  "assignedBefore configs i = set (map cfg_voiceName (take i configs))"

definition three_male_speakers :: "speaker list" where
  "three_male_speakers =
     [\<lparr>speakerLabel = js ''A'', voiceName = js ''__random_male__''\<rparr>,
      \<lparr>speakerLabel = js ''B'', voiceName = js ''__random_male__''\<rparr>,
      \<lparr>speakerLabel = js ''C'', voiceName = js ''__random_male__''\<rparr>]"

section \<open>The \<^verbatim>\<open>generateImage\<close> branch: collecting and returning generated images\<close>




text \<open>
  An element of \<^verbatim>\<open>generatedImages\<close>: the object pushed after an upload, or the object
  \<^verbatim>\<open>ImageUtils.saveBinaryToNodeData\<close> returned, of which the branch reads \<^verbatim>\<open>data\<close>, \<^verbatim>\<open>mimeType\<close>
  and \<^verbatim>\<open>fileName\<close>.
\<close>

record binary_image =
  saved_data :: bytes
  saved_mimeType :: js_string
  saved_fileName :: js_string

datatype generated_image =
  Uploaded js_string js_string "js_string option"
  | Saved binary_image

text \<open>
  What the branch reads from outside for one item: the node parameters \<^verbatim>\<open>uploadToS3\<close>,
  \<^verbatim>\<open>s3BucketName\<close> and \<^verbatim>\<open>s3PublicDomain\<close>, the identifier of the \<open>k\<close>-th \<^verbatim>\<open>ulid()\<close> call of the branch,
  the environment of the \<open>k\<close>-th call of \<open>uploadToS3\<close>, \<^verbatim>\<open>ImageUtils.saveBinaryToNodeData\<close> (its source
  is not part of the repository; it is an argument), and the Base64 codec of \<^verbatim>\<open>Buffer\<close>.
\<close>

record image_env =
  param_uploadToS3 :: bool
  param_s3BucketName :: js_string
  param_s3PublicDomain :: js_string
  ulids :: "nat \<Rightarrow> js_string"
  s3 :: "nat \<Rightarrow> s3_env"
  saveBinaryToNodeData :: "js_string \<Rightarrow> js_string \<Rightarrow> js_string \<Rightarrow> binary_image"
  fromBase64 :: "js_string \<Rightarrow> bytes"
  toBase64 :: "bytes \<Rightarrow> js_string"











definition image_mimeType :: "generated_image \<Rightarrow> js_string" where
  "image_mimeType g = (case g of Uploaded u m f \<Rightarrow> m | Saved b \<Rightarrow> saved_mimeType b)"











section \<open>\<^verbatim>\<open>VideoUtils.removeAudioFromVideo\<close>\<close>

text \<open>
  The function works on temporary files through \<^verbatim>\<open>fs/promises\<close> and runs \<^verbatim>\<open>ffmpeg\<close> as a
  subprocess. The file system is a map from paths to contents; every operation either
  fails with an error, leaving the files as they are, or succeeds with the new files. What
  decides is outside the program: \<open>writable\<close>, \<open>readable\<close> and \<open>removable\<close> say which paths can
  be written, read and unlinked, and \<open>ffmpeg_remux\<close> is what
  \<^verbatim>\<open>ffmpeg -i <input> -c:v copy -an <output>\<close> writes for a given input, or \<open>None\<close> when the
  command is missing, exits with an error or exceeds its 60 s time-out.
\<close>

type_synonym files = "js_string \<rightharpoonup> bytes"

record os_env =
  date_now :: nat
  tmpdir :: js_string
  writable :: "js_string \<Rightarrow> bool"
  readable :: "js_string \<Rightarrow> bool"
  removable :: "js_string \<Rightarrow> bool"
  ffmpeg_remux :: "bytes \<Rightarrow> bytes option"

definition writeFile :: "os_env \<Rightarrow> files \<Rightarrow> js_string \<Rightarrow> bytes \<Rightarrow> js_error + files" where
  "writeFile os fs path' content =
     (if writable os path' then Inr (fs(path' \<mapsto> content))
      else Inl \<lparr>err_name = js ''Error'', err_message = Some (js ''EACCES: permission denied''),
                err_code = Some (js ''EACCES'')\<rparr>)"

definition readFile :: "os_env \<Rightarrow> files \<Rightarrow> js_string \<Rightarrow> js_error + bytes" where
  "readFile os fs path' =
     (case fs path' of
        Some content \<Rightarrow>
          if readable os path' then Inr content
          else Inl \<lparr>err_name = js ''Error'', err_message = Some (js ''EACCES: permission denied''),
                    err_code = Some (js ''EACCES'')\<rparr>
      | None \<Rightarrow>
          Inl \<lparr>err_name = js ''Error'', err_message = Some (js ''ENOENT: no such file or directory''),
               err_code = Some (js ''ENOENT'')\<rparr>)"

definition unlink :: "os_env \<Rightarrow> files \<Rightarrow> js_string \<Rightarrow> js_error + files" where
  "unlink os fs path' =
     (case fs path' of
        Some content \<Rightarrow>
          if removable os path' then Inr (fs(path' := None))
          else Inl \<lparr>err_name = js ''Error'', err_message = Some (js ''EPERM: operation not permitted''),
                    err_code = Some (js ''EPERM'')\<rparr>
      | None \<Rightarrow>
          Inl \<lparr>err_name = js ''Error'', err_message = Some (js ''ENOENT: no such file or directory''),
               err_code = Some (js ''ENOENT'')\<rparr>)"

definition execFfmpegStripAudio ::
  "os_env \<Rightarrow> files \<Rightarrow> js_string \<Rightarrow> js_string \<Rightarrow> js_error + files" where
  "execFfmpegStripAudio os fs inputPath outputPath =
     (case fs inputPath of
        None \<Rightarrow> Inl (Error (js ''Command failed: ffmpeg''))
      | Some video \<Rightarrow>
          (case ffmpeg_remux os video of
             None \<Rightarrow> Inl (Error (js ''Command failed: ffmpeg''))
           | Some remuxed \<Rightarrow> Inr (fs(outputPath \<mapsto> remuxed))))"

text \<open>\<^verbatim>\<open>await unlink(path).catch(() => {})\<close>: a failure is swallowed.\<close>

definition unlinkQuietly :: "os_env \<Rightarrow> files \<Rightarrow> js_string \<Rightarrow> files" where
  "unlinkQuietly os fs path' = (case unlink os fs path' of Inl error \<Rightarrow> fs | Inr fs' \<Rightarrow> fs')"

record audio_removal =
  buffer :: bytes
  audioRemoved :: bool

text \<open>
  The function returns its result, or the error it throws, together with the files it
  leaves behind. The first \<open>case\<close> is the \<^verbatim>\<open>try\<close> block up to \<^verbatim>\<open>readFile\<close>, its \<open>Inl\<close> branch is the
  \<^verbatim>\<open>catch\<close> block; the clean-up of the \<^verbatim>\<open>try\<close> block is its own \<^verbatim>\<open>try\<close>/\<^verbatim>\<open>catch\<close>, whose second \<^verbatim>\<open>unlink\<close> is
  skipped when the first throws.
\<close>

definition removeAudioFromVideo ::
  "os_env \<Rightarrow> files \<Rightarrow> bytes \<Rightarrow> (js_error + audio_removal) \<times> files" where
  "removeAudioFromVideo os fs videoBuffer =
     (let tempId = date_now os;
          inputPath = tmpdir os @ js ''/'' @ js ''input_'' @ decimal tempId @ js ''.mp4'';
          outputPath = tmpdir os @ js ''/'' @ js ''output_'' @ decimal tempId @ js ''.mp4''
      in case
           (case writeFile os fs inputPath videoBuffer of
              Inl error \<Rightarrow> Inl (error, fs)
            | Inr fs1 \<Rightarrow>
                (case execFfmpegStripAudio os fs1 inputPath outputPath of
                   Inl error \<Rightarrow> Inl (error, fs1)
                 | Inr fs2 \<Rightarrow>
                     (case readFile os fs2 outputPath of
                        Inl error \<Rightarrow> Inl (error, fs2)
                      | Inr processedBuffer \<Rightarrow> Inr (processedBuffer, fs2))))
         of
           Inr (processedBuffer, fs2) \<Rightarrow>
             let fs3 =
               (case unlink os fs2 inputPath of
                  Inl cleanupError \<Rightarrow> fs2
                | Inr fs' \<Rightarrow>
                    (case unlink os fs' outputPath of
                       Inl cleanupError \<Rightarrow> fs'
                     | Inr fs'' \<Rightarrow> fs''))
             in (Inr \<lparr>buffer = processedBuffer, audioRemoved = True\<rparr>, fs3)
         | Inl (error, fs') \<Rightarrow>
             let fs'' = unlinkQuietly os (unlinkQuietly os fs' inputPath) outputPath
             in (Inr \<lparr>buffer = videoBuffer, audioRemoved = False\<rparr>, fs''))"

text \<open>Two systems: one without a working \<^verbatim>\<open>ffmpeg\<close>, one whose \<^verbatim>\<open>ffmpeg\<close> drops the last byte.\<close>

definition no_ffmpeg :: os_env where
  "no_ffmpeg =
     \<lparr>date_now = 1700000000000, tmpdir = js ''/tmp'', writable = (\<lambda>p. True),
      readable = (\<lambda>p. True), removable = (\<lambda>p. True), ffmpeg_remux = (\<lambda>video. None)\<rparr>"

definition with_ffmpeg :: os_env where
  "with_ffmpeg = no_ffmpeg\<lparr>ffmpeg_remux := (\<lambda>video. Some (butlast video)), removable := (\<lambda>p. False)\<rparr>"

section \<open>The item loop of \<^verbatim>\<open>Gemini.execute\<close> and its catch handler\<close>

text \<open>The character class \<^verbatim>\<open>[\x00-\x1F\x7F-\x9F]\<close>.\<close>

definition isControlChar :: "code_unit \<Rightarrow> bool" where
  "isControlChar c \<longleftrightarrow> c \<le> 0x1F \<or> (0x7F \<le> c \<and> c \<le> 0x9F)"

text \<open>
  The value the handler catches, whatever its class, as far as the handler reads it: its
  properties \<^verbatim>\<open>message\<close> and \<^verbatim>\<open>stack\<close>, either of which may be undefined.
\<close>

record caught =
  caught_message :: "js_string option"
  caught_stack :: "js_string option"

text \<open>
  The variable \<^verbatim>\<open>sanitizedMessage\<close> of the catch handler: an undefined or empty
  \<^verbatim>\<open>error.message\<close> is falsy.
\<close>

definition sanitizedMessage :: "caught \<Rightarrow> js_string" where
  "sanitizedMessage error =
     (case caught_message error of
        None \<Rightarrow> js ''Unknown error occurred''
      | Some m \<Rightarrow>
          if m \<noteq> [] then filter (\<lambda>c. \<not> isControlChar c) m
          else js ''Unknown error occurred'')"

text \<open>
  An entry of \<^verbatim>\<open>returnData\<close> is the result an operation produced for an item, or the
  record \<^verbatim>\<open>{ json: { error: sanitizedMessage } }\<close>; both carry the item's index as
  \<^verbatim>\<open>pairedItem\<close>.

  The error that aborts the batch is
  \<^verbatim>\<open>new NodeOperationError(node, sanitizedError, { itemIndex: i })\<close>, where \<^verbatim>\<open>sanitizedError\<close> is
  \<^verbatim>\<open>new Error(sanitizedMessage)\<close> with the stack of the caught error. The class belongs to
  \<^verbatim>\<open>n8n-workflow\<close>, not to the repository: the record keeps what the handler hands to the
  constructor, and its \<open>raised_message\<close> is the \<^verbatim>\<open>message\<close> the caller reads on the object, given by
  the constructor's rule \<open>n8nMessage\<close> from the message of the error it is built from.
\<close>

datatype 'r execution_data = Result 'r nat | ErrorResult js_string nat

record sanitized_error =
  sanitized_message :: js_string
  sanitized_stack :: "js_string option"

record batch_error =
  cause :: sanitized_error
  itemIndex :: nat
  raised_message :: js_string

text \<open>
  The loop \<^verbatim>\<open>for (let i = 0; i < items.length; i++) { try { ... } catch (error) { ... } }\<close>.
  \<open>body i\<close> is what the \<^verbatim>\<open>try\<close> block does for item \<open>i\<close>: the entry it pushes, or the value it
  throws.
\<close>

function executeLoop ::
  "(js_string \<Rightarrow> js_string) \<Rightarrow> bool \<Rightarrow> (nat \<Rightarrow> caught + 'r) \<Rightarrow> nat \<Rightarrow> nat
     \<Rightarrow> 'r execution_data list \<Rightarrow> batch_error + 'r execution_data list" where
  "executeLoop n8nMessage continueOnFail body n i returnData =
     (if i < n then
        (case body i of
           Inr r \<Rightarrow> executeLoop n8nMessage continueOnFail body n (i + 1) (returnData @ [Result r i])
         | Inl error \<Rightarrow>
             if continueOnFail
             then executeLoop n8nMessage continueOnFail body n (i + 1)
                    (returnData @ [ErrorResult (sanitizedMessage error) i])
             else
               let sanitizedError =
                     \<lparr>sanitized_message = sanitizedMessage error,
                      sanitized_stack = caught_stack error\<rparr>
               in Inl \<lparr>cause = sanitizedError, itemIndex = i,
                       raised_message = n8nMessage (sanitized_message sanitizedError)\<rparr>)
      else Inr returnData)"
  by pat_completeness auto
termination
  by (relation "measure (\<lambda>(n8nMessage, continueOnFail, body, n, i, returnData). n - i)") auto

declare executeLoop.simps [simp del]

definition execute ::
  "(js_string \<Rightarrow> js_string) \<Rightarrow> bool \<Rightarrow> (nat \<Rightarrow> caught + 'r) \<Rightarrow> nat
     \<Rightarrow> batch_error + 'r execution_data list" where
  "execute n8nMessage continueOnFail body n = executeLoop n8nMessage continueOnFail body n 0 []"

text \<open>
  A batch of three items whose second throws a message with control characters, and a
  batch of one item that throws the message of a missing file.
\<close>

definition noisy_error :: caught where
  "noisy_error =
     \<lparr>caught_message = Some ([0x07] @ js ''bad'' @ [0x9B, 0x1F] @ js ''data''),
      caught_stack = Some (js ''Error: bad data'' @ [LF] @ js ''    at execute'')\<rparr>"

definition three_items :: "nat \<Rightarrow> caught + nat" where
  "three_items i = (if i = 1 then Inl noisy_error else Inr (10 * i))"

definition missing_file :: caught where
  "missing_file =
     \<lparr>caught_message = Some (js ''ENOENT: no such file or directory, open /tmp/in.mp4''),
      caught_stack = None\<rparr>"

definition one_missing_file :: "nat \<Rightarrow> caught + nat" where
  "one_missing_file i = Inl missing_file"

chapter \<open>Properties\<close>

section \<open>Properties of the upload retry loop\<close>

lemma uploadLoop_past_limit:
  "maxRetries < attempt \<Longrightarrow>
   uploadLoop upload url maxRetries attempt lastError slept =
     \<lparr>outcome = Inl (uploadFailure maxRetries lastError), attempts = attempt - 1, delays = slept\<rparr>"
  by (subst uploadLoop.simps) simp

lemma uploadLoop_stored:
  "attempt \<le> maxRetries \<Longrightarrow> upload attempt = Stored \<Longrightarrow>
   uploadLoop upload url maxRetries attempt lastError slept =
     \<lparr>outcome = Inr url, attempts = attempt, delays = slept\<rparr>"
  by (subst uploadLoop.simps) simp

lemma uploadLoop_abort:
  "attempt \<le> maxRetries \<Longrightarrow> upload attempt = Rejected error \<Longrightarrow>
   attempt = maxRetries \<or> \<not> isNetworkError error \<Longrightarrow>
   uploadLoop upload url maxRetries attempt lastError slept =
     \<lparr>outcome = Inl (uploadFailure maxRetries (Some error)), attempts = attempt, delays = slept\<rparr>"
  by (subst uploadLoop.simps) auto

lemma uploadLoop_retry:
  "attempt < maxRetries \<Longrightarrow> upload attempt = Rejected error \<Longrightarrow> isNetworkError error \<Longrightarrow>
   uploadLoop upload url maxRetries attempt lastError slept =
     uploadLoop upload url maxRetries (attempt + 1) (Some error) (slept @ [2 ^ attempt * 100])"
  by (subst uploadLoop.simps) (simp add: Let_def)

lemma uploadLoop_invariant:
  fixes upload :: "nat \<Rightarrow> upload_outcome" and lastError :: "js_error option"
    and url :: js_string and slept :: "nat list" and attempt maxRetries :: nat
  assumes "attempt \<le> maxRetries"
  defines "r \<equiv> uploadLoop upload url maxRetries attempt lastError slept"
  shows "attempt \<le> attempts r \<and> attempts r \<le> maxRetries
    \<and> delays r = slept @ map (\<lambda>n. 2 ^ n * 100) [attempt..<attempts r]
    \<and> (\<forall>n. attempt \<le> n \<and> n < attempts r \<longrightarrow> (\<exists>e. upload n = Rejected e \<and> isNetworkError e))
    \<and> (case upload (attempts r) of
          Stored \<Rightarrow> outcome r = Inr url
        | Rejected e \<Rightarrow> outcome r = Inl (uploadFailure maxRetries (Some e))
            \<and> (attempts r = maxRetries \<or> \<not> isNetworkError e))"
  using assms(1) unfolding r_def
proof (induction "maxRetries - attempt" arbitrary: attempt lastError slept)
  case 0
  then have eq: "attempt = maxRetries" by simp
  show ?case
  proof (cases "upload attempt")
    case Stored
    then show ?thesis using 0 by (auto simp: uploadLoop_stored)
  next
    case (Rejected error)
    then show ?thesis using 0 eq by (auto simp: uploadLoop_abort)
  qed
next
  case (Suc k)
  then have lt: "attempt < maxRetries" by simp
  show ?case
  proof (cases "upload attempt")
    case Stored
    then show ?thesis using Suc.prems by (auto simp: uploadLoop_stored)
  next
    case (Rejected error)
    show ?thesis
    proof (cases "isNetworkError error")
      case False
      then show ?thesis using Rejected Suc.prems by (auto simp: uploadLoop_abort)
    next
      case True
      have step: "uploadLoop upload url maxRetries attempt lastError slept =
          uploadLoop upload url maxRetries (attempt + 1) (Some error) (slept @ [2 ^ attempt * 100])"
        using lt Rejected True by (rule uploadLoop_retry)
      have k: "k = maxRetries - (attempt + 1)" using Suc.hyps(2) by simp
      have le: "attempt + 1 \<le> maxRetries" using lt by simp
      note IH = Suc.hyps(1)[OF k le, of "Some error" "slept @ [2 ^ attempt * 100]"]
      let ?r = "uploadLoop upload url maxRetries (attempt + 1) (Some error) (slept @ [2 ^ attempt * 100])"
      from IH have a: "attempt + 1 \<le> attempts ?r" and b: "attempts ?r \<le> maxRetries"
        and c: "delays ?r = (slept @ [2 ^ attempt * 100]) @ map (\<lambda>n. 2 ^ n * 100) [attempt + 1..<attempts ?r]"
        and d: "\<forall>n. attempt + 1 \<le> n \<and> n < attempts ?r \<longrightarrow> (\<exists>e. upload n = Rejected e \<and> isNetworkError e)"
        and e: "(case upload (attempts ?r) of
          Stored \<Rightarrow> outcome ?r = Inr url
        | Rejected e \<Rightarrow> outcome ?r = Inl (uploadFailure maxRetries (Some e))
            \<and> (attempts ?r = maxRetries \<or> \<not> isNetworkError e))"
        by blast+
      have c': "delays ?r = slept @ map (\<lambda>n. 2 ^ n * 100) [attempt..<attempts ?r]"
        using a c by (simp add: upt_conv_Cons)
      have d': "\<forall>n. attempt \<le> n \<and> n < attempts ?r \<longrightarrow> (\<exists>e. upload n = Rejected e \<and> isNetworkError e)"
      proof (intro allI impI)
        fix n assume n: "attempt \<le> n \<and> n < attempts ?r"
        show "\<exists>e. upload n = Rejected e \<and> isNetworkError e"
        proof (cases "n = attempt")
          case True
          then show ?thesis using Rejected \<open>isNetworkError error\<close> by blast
        next
          case False
          then show ?thesis using n d by simp
        qed
      qed
      show ?thesis unfolding step using a b c' d' e by simp
    qed
  qed
qed

lemma uploadToS3_unfold:
  "getCredentials env = Some c \<Longrightarrow>
   uploadToS3 env data mimeType bucketName fileNamePrefix maxRetries publicDomain =
     uploadLoop (upload_done env)
       (publicUrl publicDomain (endpoint c) (forcePathStyle c)
          (if region c \<noteq> [] then region c else js ''us-east-1'') bucketName
          (fileNamePrefix @ js ''_'' @ ulid env @ js ''.'' @
             (case getExtension env mimeType of None \<Rightarrow> js ''bin''
              | Some e \<Rightarrow> if e \<noteq> [] then e else js ''bin'')))
       maxRetries 1 None []"
  by (simp add: uploadToS3_def Let_def)

text \<open>
  Claim C2, as stated, has the error raised after the last attempt name the last failure
  in its message. The error is a \<^verbatim>\<open>NodeOperationError\<close> of \<^verbatim>\<open>n8n-workflow\<close>, whose constructor
  replaces a text that contains a common error code by a description of the code, and the
  failures that exhaust the retries carry such codes: after two attempts that fail with
  \<^verbatim>\<open>getaddrinfo ENOTFOUND\<close>, the function hands the text
  \<^verbatim>\<open>Failed to upload to S3 after 2 attempts: getaddrinfo ENOTFOUND\<close> to the constructor, and the
  message of the error raised is the description, in which the failure does not occur.
\<close>

theorem C2_raised_message_does_not_name_failure:
  "outcome (uploadToS3 flaky_env [] (js ''image/png'') (js ''b'') (js ''img'') 2 None)
     = Inl (NodeOperationError
             (js ''Failed to upload to S3 after 2 attempts: getaddrinfo ENOTFOUND''))
   \<and> upload_done flaky_env 2 = Rejected dns_failure
   \<and> err_message dns_failure = Some (js ''getaddrinfo ENOTFOUND'')
   \<and> messageOf describesCommonErrors
         (NodeOperationError
           (js ''Failed to upload to S3 after 2 attempts: getaddrinfo ENOTFOUND''))
       = Some (js ''The connection cannot be established, this usually occurs due to an incorrect host (domain) value'')
   \<and> \<not> includes_str
         (js ''The connection cannot be established, this usually occurs due to an incorrect host (domain) value'')
         (js ''getaddrinfo ENOTFOUND'')"
  by code_simp

text \<open>
  Claim C2, amended. For every call of \<open>uploadToS3\<close> with credentials present: at most
  \<open>maxRetries\<close> calls of \<^verbatim>\<open>upload.done()\<close> are made (none when \<open>maxRetries = 0\<close>, at least one
  otherwise); a delay is slept exactly between consecutive attempts, and the delay after
  attempt \<open>n\<close> is \<open>2 ^ n * 100\<close> ms; every attempt that was followed by another one failed with
  a transient error (code \<^verbatim>\<open>ENOTFOUND\<close> or \<^verbatim>\<open>EAI_AGAIN\<close>, or name \<^verbatim>\<open>TimeoutError\<close>), so an attempt
  that succeeds or fails otherwise is the last one; and when the last attempt failed, because
  it was not transient or because it was attempt number \<open>maxRetries\<close>, the error raised is a
  \<^verbatim>\<open>NodeOperationError\<close> built from the text
  \<^verbatim>\<open>Failed to upload to S3 after <maxRetries> attempts: <message of that failure>\<close>, and its message
  is what the constructor of that class makes of this text.
\<close>

theorem C2_uploadToS3_retries:
  fixes env :: s3_env and c :: s3_credentials and data :: bytes
    and mimeType bucketName fileNamePrefix :: js_string and maxRetries :: nat
    and publicDomain :: "js_string option" and n8nMessage :: "js_string \<Rightarrow> js_string"
  assumes cred: "getCredentials env = Some c"
  defines "r \<equiv> uploadToS3 env data mimeType bucketName fileNamePrefix maxRetries publicDomain"
  shows "attempts r \<le> maxRetries
    \<and> (1 \<le> maxRetries \<longrightarrow> 1 \<le> attempts r)
    \<and> delays r = map (\<lambda>n. 2 ^ n * 100) [1..<attempts r]
    \<and> (\<forall>n. 1 \<le> n \<and> n < attempts r \<longrightarrow>
          (\<exists>e. upload_done env n = Rejected e \<and> isNetworkError e))
    \<and> (\<forall>e. 1 \<le> maxRetries \<and> upload_done env 1 = Rejected e \<and> \<not> isNetworkError e \<longrightarrow>
          attempts r = 1 \<and> delays r = [])
    \<and> (1 \<le> maxRetries \<longrightarrow>
         (case upload_done env (attempts r) of
            Stored \<Rightarrow> (\<exists>url. outcome r = Inr url)
          | Rejected e \<Rightarrow>
              (attempts r = maxRetries \<or> \<not> isNetworkError e)
              \<and> outcome r = Inl (NodeOperationError
                    (js ''Failed to upload to S3 after '' @ decimal maxRetries
                     @ js '' attempts: '' @ render (err_message e)))
              \<and> (\<exists>t. outcome r = Inl t
                    \<and> messageOf n8nMessage t = Some (n8nMessage
                          (js ''Failed to upload to S3 after '' @ decimal maxRetries
                           @ js '' attempts: '' @ render (err_message e))))))"
proof (cases "1 \<le> maxRetries")
  case False
  then have "maxRetries < 1" by simp
  then show ?thesis
    unfolding r_def uploadToS3_unfold[OF cred] by (simp add: uploadLoop_past_limit)
next
  case True
  obtain url where r: "r = uploadLoop (upload_done env) url maxRetries 1 None []"
    unfolding r_def uploadToS3_unfold[OF cred] by blast
  note inv = uploadLoop_invariant[OF True, of "upload_done env" url None "[]", folded r]
  from inv have a: "1 \<le> attempts r" and b: "attempts r \<le> maxRetries"
    and c: "delays r = map (\<lambda>n. 2 ^ n * 100) [1..<attempts r]"
    and d: "\<forall>n. 1 \<le> n \<and> n < attempts r \<longrightarrow> (\<exists>e. upload_done env n = Rejected e \<and> isNetworkError e)"
    and e: "(case upload_done env (attempts r) of
          Stored \<Rightarrow> outcome r = Inr url
        | Rejected e \<Rightarrow> outcome r = Inl (uploadFailure maxRetries (Some e))
            \<and> (attempts r = maxRetries \<or> \<not> isNetworkError e))"
    by simp_all
  have f: "\<forall>e. 1 \<le> maxRetries \<and> upload_done env 1 = Rejected e \<and> \<not> isNetworkError e \<longrightarrow>
          attempts r = 1 \<and> delays r = []"
  proof (intro allI impI)
    fix e assume h: "1 \<le> maxRetries \<and> upload_done env 1 = Rejected e \<and> \<not> isNetworkError e"
    have "\<not> 1 < attempts r"
    proof
      assume "1 < attempts r"
      with d obtain e' where "upload_done env 1 = Rejected e'" "isNetworkError e'" by auto
      with h show False by simp
    qed
    with a have "attempts r = 1" by simp
    with c show "attempts r = 1 \<and> delays r = []" by simp
  qed
  have g: "(case upload_done env (attempts r) of
            Stored \<Rightarrow> (\<exists>url. outcome r = Inr url)
          | Rejected e \<Rightarrow>
              (attempts r = maxRetries \<or> \<not> isNetworkError e)
              \<and> outcome r = Inl (NodeOperationError
                    (js ''Failed to upload to S3 after '' @ decimal maxRetries
                     @ js '' attempts: '' @ render (err_message e)))
              \<and> (\<exists>t. outcome r = Inl t
                    \<and> messageOf n8nMessage t = Some (n8nMessage
                          (js ''Failed to upload to S3 after '' @ decimal maxRetries
                           @ js '' attempts: '' @ render (err_message e)))))"
    using e by (auto simp: uploadFailure_def messageOf_def split: upload_outcome.splits)
  from a b c d f g show ?thesis by blast
qed

lemma flaky_run_5:
  "uploadToS3 flaky_env [] (js ''image/png'') (js ''b'') (js ''img'') 5 None =
     \<lparr>outcome = Inr (js ''http://b.minio.local:9000/img_01ARZ.png''), attempts = 3,
      delays = [200, 400]\<rparr>"
  by code_simp

theorem C2_uploadToS3_retries_witness:
  "attempts (uploadToS3 flaky_env [] (js ''image/png'') (js ''b'') (js ''img'') 5 None) = 3
   \<and> delays (uploadToS3 flaky_env [] (js ''image/png'') (js ''b'') (js ''img'') 5 None) = [200, 400]
   \<and> upload_done flaky_env 1 = Rejected dns_failure \<and> isNetworkError dns_failure
   \<and> upload_done flaky_env 3 = Stored
   \<and> (\<exists>url. outcome (uploadToS3 flaky_env [] (js ''image/png'') (js ''b'') (js ''img'') 5 None)
         = Inr url)
   \<and> attempts (uploadToS3 flaky_env [] (js ''image/png'') (js ''b'') (js ''img'') 2 None) = 2
   \<and> outcome (uploadToS3 flaky_env [] (js ''image/png'') (js ''b'') (js ''img'') 2 None) =
       Inl (NodeOperationError
         (js ''Failed to upload to S3 after 2 attempts: getaddrinfo ENOTFOUND''))"
proof -
  have cred: "getCredentials flaky_env = Some minio_credentials"
    by (simp add: flaky_env_def)
  have u: "upload_done flaky_env 1 = Rejected dns_failure"
    "upload_done flaky_env 2 = Rejected dns_failure" "upload_done flaky_env 3 = Stored"
    by (simp_all add: flaky_env_def)
  have n: "isNetworkError dns_failure"
    by (simp add: isNetworkError_def dns_failure_def)
  note five = C2_uploadToS3_retries[OF cred, where data = "[]" and mimeType = "js ''image/png''"
      and bucketName = "js ''b''" and fileNamePrefix = "js ''img''" and maxRetries = 5
      and publicDomain = None and n8nMessage = id]
  note two = C2_uploadToS3_retries[OF cred, where data = "[]" and mimeType = "js ''image/png''"
      and bucketName = "js ''b''" and fileNamePrefix = "js ''img''" and maxRetries = 2
      and publicDomain = None and n8nMessage = id]
  let ?r2 = "uploadToS3 flaky_env [] (js ''image/png'') (js ''b'') (js ''img'') 2 None"
  have a2: "attempts ?r2 = 2"
  proof -
    from two have le: "attempts ?r2 \<le> 2" and ge: "1 \<le> attempts ?r2"
      and last: "(case upload_done flaky_env (attempts ?r2) of
            Stored \<Rightarrow> (\<exists>url. outcome ?r2 = Inr url)
          | Rejected e \<Rightarrow> (attempts ?r2 = 2 \<or> \<not> isNetworkError e)
              \<and> outcome ?r2 = Inl (NodeOperationError
                    (js ''Failed to upload to S3 after '' @ decimal 2
                     @ js '' attempts: '' @ render (err_message e)))
              \<and> (\<exists>t. outcome ?r2 = Inl t
                    \<and> messageOf id t = Some (id
                          (js ''Failed to upload to S3 after '' @ decimal 2
                           @ js '' attempts: '' @ render (err_message e)))))"
      by simp_all
    from le ge have "attempts ?r2 = 1 \<or> attempts ?r2 = 2" by arith
    then show ?thesis using last u n by auto
  qed
  have o2: "outcome ?r2 = Inl (NodeOperationError
         (js ''Failed to upload to S3 after 2 attempts: getaddrinfo ENOTFOUND''))"
    using two a2 u by (simp add: decimal.simps render_def dns_failure_def js_def)
  from five flaky_run_5 u n a2 o2 show ?thesis by simp
qed
section \<open>Properties of the public URL\<close>

lemma uploadLoop_url:
  "outcome (uploadLoop upload url maxRetries attempt lastError slept) = Inr u \<Longrightarrow> u = url"
proof (cases "attempt \<le> maxRetries")
  case True
  assume o: "outcome (uploadLoop upload url maxRetries attempt lastError slept) = Inr u"
  from uploadLoop_invariant[OF True, of upload url lastError slept] o
  show ?thesis by (auto split: upload_outcome.splits)
next
  case False
  assume "outcome (uploadLoop upload url maxRetries attempt lastError slept) = Inr u"
  with False show ?thesis by (simp add: uploadLoop_past_limit)
qed

lemma split_from_no_separator:
  "sep \<noteq> [] \<Longrightarrow> \<not> includes_str s sep \<Longrightarrow> split_from sep piece s = [rev piece @ s]"
  by (induction s arbitrary: piece) auto

lemma split_from_scheme:
  "0x3A \<notin> set scheme \<Longrightarrow>
   split_from (js ''://'') piece (scheme @ js ''://'' @ host) =
     (rev piece @ scheme) # split_from (js ''://'') [] host"
  by (induction scheme arbitrary: piece) (auto simp: js_def)

lemma split_scheme_host:
  assumes "0x3A \<notin> set scheme" and "\<not> includes_str host (js ''://'')"
  shows "split (scheme @ js ''://'' @ host) (js ''://'') = [scheme, host]"
proof -
  have ne: "js ''://'' \<noteq> []" by (simp add: js_def)
  have "split_from (js ''://'') [] (scheme @ js ''://'' @ host)
      = scheme # split_from (js ''://'') [] host"
    using split_from_scheme[OF assms(1), of "[]" host] by simp
  also have "split_from (js ''://'') [] host = [host]"
    using split_from_no_separator[OF ne assms(2), of "[]"] by simp
  finally show ?thesis using ne by (simp add: split_def)
qed

lemma trim_Nil [simp]: "trim [] = []"
  by (simp add: trim_def)

text \<open>
  Claim C3, as stated, gives the public domain precedence whenever it is non-empty. The
  guard of the source is \<^verbatim>\<open>publicDomain && publicDomain.trim()\<close>: a public domain of one space is
  non-empty, and the URL is the default pattern, not \<^verbatim>\<open>" /<key>"\<close>.
\<close>

theorem C3_blank_public_domain_is_ignored:
  "outcome (uploadToS3 aws_env [] (js ''image/png'') (js ''b'') (js ''img'') 5 (Some (js '' '')))
     = Inr (js ''https://b.s3.us-east-1.amazonaws.com/img_01ARZ.png'')
   \<and> js '' '' \<noteq> []
   \<and> js ''https://b.s3.us-east-1.amazonaws.com/img_01ARZ.png''
       \<noteq> js '' '' @ js ''/'' @ js ''img_01ARZ.png''"
  by code_simp

text \<open>
  Claim C3, amended. Let the key be \<^verbatim>\<open><prefix>_<ulid>.<extension>\<close>, and call a public domain
  blank when it is absent, empty or whitespace only. For every successful upload the URL is:
  with a public domain that is not blank, \<^verbatim>\<open>{domain}/{key}\<close>, whatever the endpoint settings;
  otherwise with a custom endpoint and path style forced, \<^verbatim>\<open>{endpoint}/{bucket}/{key}\<close>;
  otherwise with a custom endpoint \<^verbatim>\<open>{scheme}://{endpointHost}\<close>,
  \<^verbatim>\<open>{scheme}://{bucket}.{endpointHost}/{key}\<close>; otherwise
  \<^verbatim>\<open>https://{bucket}.s3.{region}.amazonaws.com/{key}\<close>, the region defaulting to \<^verbatim>\<open>us-east-1\<close>. In
  each template \<^verbatim>\<open>{domain}\<close> and \<^verbatim>\<open>{endpoint}\<close> stand for the configured value with one trailing
  slash removed.
\<close>

theorem C3_public_url_precedence:
  fixes env :: s3_env and c :: s3_credentials and data :: bytes
    and mimeType bucketName fileNamePrefix url scheme host :: js_string and maxRetries :: nat
    and publicDomain :: "js_string option"
  assumes cred: "getCredentials env = Some c"
    and ok: "outcome (uploadToS3 env data mimeType bucketName fileNamePrefix maxRetries publicDomain)
               = Inr url"
  defines "key \<equiv> fileNamePrefix @ js ''_'' @ ulid env @ js ''.'' @
             (case getExtension env mimeType of None \<Rightarrow> js ''bin''
              | Some e \<Rightarrow> if e \<noteq> [] then e else js ''bin'')"
  defines "blank \<equiv> (case publicDomain of None \<Rightarrow> True | Some d \<Rightarrow> trim d = [])"
  shows "(\<forall>d. publicDomain = Some d \<and> trim d \<noteq> [] \<longrightarrow>
            url = stripTrailingSlash d @ js ''/'' @ key)
    \<and> (blank \<and> endpoint c \<noteq> [] \<and> forcePathStyle c \<longrightarrow>
            url = stripTrailingSlash (endpoint c) @ js ''/'' @ bucketName @ js ''/'' @ key)
    \<and> (blank \<and> endpoint c \<noteq> [] \<and> \<not> forcePathStyle c
          \<and> stripTrailingSlash (endpoint c) = scheme @ js ''://'' @ host
          \<and> 0x3A \<notin> set scheme \<and> \<not> includes_str host (js ''://'') \<longrightarrow>
            url = scheme @ js ''://'' @ bucketName @ js ''.'' @ host @ js ''/'' @ key)
    \<and> (blank \<and> endpoint c = [] \<longrightarrow>
            url = js ''https://'' @ bucketName @ js ''.s3.''
                  @ (if region c \<noteq> [] then region c else js ''us-east-1'')
                  @ js ''.amazonaws.com/'' @ key)"
proof -
  have url: "url = publicUrl publicDomain (endpoint c) (forcePathStyle c)
          (if region c \<noteq> [] then region c else js ''us-east-1'') bucketName key"
    using ok unfolding uploadToS3_unfold[OF cred] key_def by (rule uploadLoop_url)
  have 1: "\<forall>d. publicDomain = Some d \<and> trim d \<noteq> [] \<longrightarrow>
            url = stripTrailingSlash d @ js ''/'' @ key"
    unfolding url by (auto simp: publicUrl_def)
  have nb: "blank \<Longrightarrow> \<not> (case publicDomain of None \<Rightarrow> False | Some d \<Rightarrow> d \<noteq> [] \<and> trim d \<noteq> [])"
    unfolding blank_def by (auto split: option.splits)
  have 2: "blank \<and> endpoint c \<noteq> [] \<and> forcePathStyle c \<longrightarrow>
            url = stripTrailingSlash (endpoint c) @ js ''/'' @ bucketName @ js ''/'' @ key"
    unfolding url using nb by (simp add: publicUrl_def)
  have 3: "blank \<and> endpoint c \<noteq> [] \<and> \<not> forcePathStyle c
          \<and> stripTrailingSlash (endpoint c) = scheme @ js ''://'' @ host
          \<and> 0x3A \<notin> set scheme \<and> \<not> includes_str host (js ''://'') \<longrightarrow>
            url = scheme @ js ''://'' @ bucketName @ js ''.'' @ host @ js ''/'' @ key"
    unfolding url using nb
    by (simp add: publicUrl_def split_scheme_host element_def render_def)
  have 4: "blank \<and> endpoint c = [] \<longrightarrow>
            url = js ''https://'' @ bucketName @ js ''.s3.''
                  @ (if region c \<noteq> [] then region c else js ''us-east-1'')
                  @ js ''.amazonaws.com/'' @ key"
    unfolding url using nb by (simp add: publicUrl_def)
  from 1 2 3 4 show ?thesis by blast
qed

theorem C3_public_url_precedence_witness:
  "outcome (uploadToS3 flaky_env [] (js ''image/png'') (js ''b'') (js ''img'') 5
       (Some (js ''https://cdn.example.com/'')))
     = Inr (js ''https://cdn.example.com/img_01ARZ.png'')
   \<and> trim (js ''https://cdn.example.com/'') \<noteq> []
   \<and> js ''https://cdn.example.com/img_01ARZ.png''
       = stripTrailingSlash (js ''https://cdn.example.com/'') @ js ''/'' @ js ''img_01ARZ.png''
   \<and> outcome (uploadToS3 flaky_env [] (js ''image/png'') (js ''b'') (js ''img'') 5 None)
     = Inr (js ''http://b.minio.local:9000/img_01ARZ.png'')
   \<and> js ''http://b.minio.local:9000/img_01ARZ.png''
       = js ''http'' @ js ''://'' @ js ''b'' @ js ''.'' @ js ''minio.local:9000'' @ js ''/''
         @ js ''img_01ARZ.png''"
proof -
  have cred: "getCredentials flaky_env = Some minio_credentials"
    by (simp add: flaky_env_def)
  have run1: "outcome (uploadToS3 flaky_env [] (js ''image/png'') (js ''b'') (js ''img'') 5
       (Some (js ''https://cdn.example.com/''))) = Inr (js ''https://cdn.example.com/img_01ARZ.png'')"
    by code_simp
  have run2: "outcome (uploadToS3 flaky_env [] (js ''image/png'') (js ''b'') (js ''img'') 5 None)
     = Inr (js ''http://b.minio.local:9000/img_01ARZ.png'')"
    by code_simp
  have nb: "trim (js ''https://cdn.example.com/'') \<noteq> []"
    by code_simp
  have key: "js ''img'' @ js ''_'' @ ulid flaky_env @ js ''.'' @
             (case getExtension flaky_env (js ''image/png'') of None \<Rightarrow> js ''bin''
              | Some e \<Rightarrow> if e \<noteq> [] then e else js ''bin'') = js ''img_01ARZ.png''"
    by code_simp
  have ep: "endpoint minio_credentials \<noteq> [] \<and> \<not> forcePathStyle minio_credentials
      \<and> stripTrailingSlash (endpoint minio_credentials) = js ''http'' @ js ''://'' @ js ''minio.local:9000''
      \<and> 0x3A \<notin> set (js ''http'') \<and> \<not> includes_str (js ''minio.local:9000'') (js ''://'')"
    by code_simp
  from C3_public_url_precedence[OF cred run1, of "js ''http''" "js ''minio.local:9000''"] nb key
  have 1: "js ''https://cdn.example.com/img_01ARZ.png''
       = stripTrailingSlash (js ''https://cdn.example.com/'') @ js ''/'' @ js ''img_01ARZ.png''"
    by simp
  from C3_public_url_precedence[OF cred run2, of "js ''http''" "js ''minio.local:9000''"] ep key
  have 2: "js ''http://b.minio.local:9000/img_01ARZ.png''
       = js ''http'' @ js ''://'' @ js ''b'' @ js ''.'' @ js ''minio.local:9000'' @ js ''/''
         @ js ''img_01ARZ.png''"
    by simp
  from run1 run2 nb 1 2 show ?thesis by blast
qed
section \<open>Properties of the \<^verbatim>\<open>generateVideo\<close> request\<close>

text \<open>
  Claim C1, as stated, has every duration other than 8 rejected at 1080p before a request
  is submitted. The branch parses the duration and submits it: a text-to-video request for 4
  seconds at 1080p is not rejected, its payload carries \<^verbatim>\<open>durationSeconds = 4\<close> and
  \<^verbatim>\<open>resolution = 1080p\<close>.
\<close>

theorem C1_unsupported_duration_is_submitted:
  "generateVideoRequest no_download four_seconds_1080p =
     Inr \<lparr>payload_model = js ''veo-3.1-generate-preview'',
          payload_config =
            \<lparr>cfg_numberOfVideos = 1, cfg_resolution = js ''1080p'',
             cfg_aspectRatio = Some (js ''16:9''), cfg_durationSeconds = Some 4,
             cfg_personGeneration = None, cfg_lastFrame = None, cfg_referenceImages = None\<rparr>,
          payload_prompt = Some (js ''a cat''), payload_negativePrompt = None,
          payload_image = None, payload_video = None\<rparr>"
  by code_simp

lemma generateVideoPayload_update:
  "generateVideoPayload (p\<lparr>resolution := r, durationSeconds := d\<rparr>) =
     (generateVideoPayload p)\<lparr>payload_config :=
        (payload_config (generateVideoPayload p))\<lparr>cfg_resolution := r,
           cfg_durationSeconds := parseInt10 d\<rparr>\<rparr>"
  by (simp add: generateVideoPayload_def Let_def buildVideoConfig_def)

lemma generateVideoPayload_config:
  "cfg_durationSeconds (payload_config (generateVideoPayload p)) = parseInt10 (durationSeconds p)
   \<and> cfg_resolution (payload_config (generateVideoPayload p)) = resolution p"
  by (simp add: generateVideoPayload_def Let_def buildVideoConfig_def)

text \<open>
  The mode-specific blocks neither read nor change the resolution and the duration of the
  payload: they commute with an update of the two.
\<close>

lemma framesToVideoBlock_update:
  "framesToVideoBlock fetch (p\<lparr>resolution := r, durationSeconds := d\<rparr>) (withDuration r' d' payload)
     = map_sum id (withDuration r' d') (framesToVideoBlock fetch p payload)"
  by (simp add: framesToVideoBlock_def withDuration_def Let_def split: sum.splits)

lemma referencesToVideoBlock_update:
  "referencesToVideoBlock fetch (p\<lparr>resolution := r, durationSeconds := d\<rparr>) (withDuration r' d' payload)
     = map_sum id (withDuration r' d') (referencesToVideoBlock fetch p payload)"
  by (simp add: referencesToVideoBlock_def withDuration_def Let_def split: sum.splits)

lemma extendVideoBlock_update:
  "extendVideoBlock (p\<lparr>resolution := r, durationSeconds := d\<rparr>) (withDuration r' d' payload)
     = map_sum id (withDuration r' d') (extendVideoBlock p payload)"
  by (simp add: extendVideoBlock_def withDuration_def split: sum.splits)

lemma generateVideoRequest_update:
  "generateVideoRequest fetch (p\<lparr>resolution := r, durationSeconds := d\<rparr>) =
     map_sum id (withDuration r (parseInt10 d)) (generateVideoRequest fetch p)"
proof -
  have base: "generateVideoPayload (p\<lparr>resolution := r, durationSeconds := d\<rparr>)
      = withDuration r (parseInt10 d) (generateVideoPayload p)"
    by (simp add: generateVideoPayload_update withDuration_def)
  show ?thesis
    unfolding generateVideoRequest_def base
    by (simp add: Let_def framesToVideoBlock_update referencesToVideoBlock_update
        extendVideoBlock_update split: sum.splits)
qed

lemma generateVideoRequest_independent:
  "(\<exists>payload. generateVideoRequest fetch (p\<lparr>resolution := r, durationSeconds := d\<rparr>) = Inr payload)
   \<longleftrightarrow> (\<exists>payload. generateVideoRequest fetch p = Inr payload)"
  unfolding generateVideoRequest_update
  by (cases "generateVideoRequest fetch p") simp_all

lemma generateVideoRequest_config:
  "generateVideoRequest fetch p = Inr payload \<Longrightarrow>
   cfg_durationSeconds (payload_config payload) = parseInt10 (durationSeconds p)
   \<and> cfg_resolution (payload_config payload) = resolution p"
proof -
  assume ok: "generateVideoRequest fetch p = Inr payload"
  have "generateVideoRequest fetch p
      = map_sum id (withDuration (resolution p) (parseInt10 (durationSeconds p)))
          (generateVideoRequest fetch p)"
    using generateVideoRequest_update[where fetch = fetch and p = p and r = "resolution p"
        and d = "durationSeconds p"] by simp
  with ok have eq: "payload = withDuration (resolution p) (parseInt10 (durationSeconds p)) payload"
    by simp
  have sel: "cfg_durationSeconds (payload_config (withDuration r d x)) = d
      \<and> cfg_resolution (payload_config (withDuration r d x)) = r" for r d x
    by (simp add: withDuration_def)
  from eq sel show ?thesis by metis
qed

text \<open>
  Claim C1, amended. The parameter description offers the durations 4, 6 and 8 when the
  resolution is 720p and only 8 when it is 1080p. The \<^verbatim>\<open>generateVideo\<close> branch itself does not
  check the combination: whether a request is rejected before submission does not depend on
  its resolution and duration, and every request that is submitted carries the resolution
  as given and \<^verbatim>\<open>parseInt(durationSeconds, 10)\<close> as its duration.
\<close>

theorem C1_duration_offered_not_validated:
  fixes fetch :: "js_string \<Rightarrow> js_error + js_string \<times> js_string" and p :: video_params
  shows "offeredDurations (js ''720p'') = [js ''4'', js ''6'', js ''8'']
    \<and> offeredDurations (js ''1080p'') = [js ''8'']
    \<and> (\<forall>r d. (\<exists>payload. generateVideoRequest fetch (p\<lparr>resolution := r, durationSeconds := d\<rparr>)
                    = Inr payload)
            \<longleftrightarrow> (\<exists>payload. generateVideoRequest fetch p = Inr payload))
    \<and> (\<forall>payload. generateVideoRequest fetch p = Inr payload \<longrightarrow>
          cfg_durationSeconds (payload_config payload) = parseInt10 (durationSeconds p)
          \<and> cfg_resolution (payload_config payload) = resolution p)"
proof -
  have 1: "offeredDurations (js ''720p'') = [js ''4'', js ''6'', js ''8'']"
    and 2: "offeredDurations (js ''1080p'') = [js ''8'']"
    by (simp_all add: offeredDurations_def durationSecondsFields_def js_def)
  have 3: "\<forall>r d. (\<exists>payload. generateVideoRequest fetch (p\<lparr>resolution := r, durationSeconds := d\<rparr>)
                    = Inr payload)
            \<longleftrightarrow> (\<exists>payload. generateVideoRequest fetch p = Inr payload)"
    by (simp only: generateVideoRequest_independent) simp
  have 4: "\<forall>payload. generateVideoRequest fetch p = Inr payload \<longrightarrow>
          cfg_durationSeconds (payload_config payload) = parseInt10 (durationSeconds p)
          \<and> cfg_resolution (payload_config payload) = resolution p"
    using generateVideoRequest_config[of fetch p] by blast
  from 1 2 3 4 show ?thesis by (intro conjI)
qed

theorem C1_duration_offered_not_validated_witness:
  "(\<exists>payload. generateVideoRequest no_download four_seconds_1080p = Inr payload
      \<and> cfg_durationSeconds (payload_config payload) = Some 4
      \<and> cfg_resolution (payload_config payload) = js ''1080p'')
   \<and> parseInt10 (durationSeconds four_seconds_1080p) = Some 4
   \<and> js ''4'' \<notin> set (offeredDurations (js ''1080p''))"
proof -
  have "generateVideoRequest no_download four_seconds_1080p =
     Inr \<lparr>payload_model = js ''veo-3.1-generate-preview'',
          payload_config =
            \<lparr>cfg_numberOfVideos = 1, cfg_resolution = js ''1080p'',
             cfg_aspectRatio = Some (js ''16:9''), cfg_durationSeconds = Some 4,
             cfg_personGeneration = None, cfg_lastFrame = None, cfg_referenceImages = None\<rparr>,
          payload_prompt = Some (js ''a cat''), payload_negativePrompt = None,
          payload_image = None, payload_video = None\<rparr>"
    by code_simp
  then have run: "\<exists>payload. generateVideoRequest no_download four_seconds_1080p = Inr payload"
    by blast
  have d: "parseInt10 (durationSeconds four_seconds_1080p) = Some 4"
    and r: "resolution four_seconds_1080p = js ''1080p''"
    by code_simp+
  from C1_duration_offered_not_validated[where fetch = no_download and p = four_seconds_1080p] run d r
  have a: "\<exists>payload. generateVideoRequest no_download four_seconds_1080p = Inr payload
      \<and> cfg_durationSeconds (payload_config payload) = Some 4
      \<and> cfg_resolution (payload_config payload) = js ''1080p''"
    by auto
  from C1_duration_offered_not_validated[where fetch = no_download and p = four_seconds_1080p]
  have "js ''4'' \<notin> set (offeredDurations (js ''1080p''))"
    by (simp add: js_def)
  with a d show ?thesis by blast
qed
section \<open>Properties of the response validation\<close>

lemma utf16Encode_nonempty: "utf16Encode v \<noteq> []"
  by (simp add: utf16Encode_def)

lemma decodeURIComponent_nonempty:
  "u \<noteq> [] \<Longrightarrow> decodeURIComponent u = Some d \<Longrightarrow> d \<noteq> []"
  by (cases u) (auto simp: utf16Encode_nonempty split: if_splits option.splits)

text \<open>
  Claim C4, as stated, has every response end in one of the four listed failures or in
  the decoded URI. A first element whose URI is not a well-formed percent-encoding, such
  as \<^verbatim>\<open>https://host/v?alt=%\<close>, ends in neither: \<^verbatim>\<open>decodeURIComponent\<close> throws a \<^verbatim>\<open>URIError\<close>.
\<close>

theorem C4_malformed_uri_raises_URIError:
  "validateVideoResponse id (\<lambda>r. []) (Some (response_with_uri (js ''https://host/v?alt=%'')))
     = Inl (JsError URIError)
   \<and> err_message URIError = Some (js ''URI malformed'')"
  by code_simp

text \<open>
  Claim C4, amended. The checks run in this order. A missing response fails with
  \<^verbatim>\<open>No response from API\<close>. Else a response with an error value fails with that value's JSON
  text. Else a filtered count above 0 fails as blocked by safety filters, with the reasons
  joined by \<^verbatim>\<open>"; "\<close>. Else the samples are \<^verbatim>\<open>generatedVideos\<close> if present, otherwise the raw
  \<^verbatim>\<open>generatedSamples\<close>; missing or empty samples fail with \<^verbatim>\<open>No videos were generated\<close>, and a
  first sample without video, without URI or with an empty URI fails with
  \<^verbatim>\<open>Generated video is missing URI\<close>. Otherwise only the first sample's URI is used: when it is a
  well-formed percent-encoding it is returned percent-decoded, and when it is not, the
  \<^verbatim>\<open>URIError\<close> of \<^verbatim>\<open>decodeURIComponent\<close> is thrown.
\<close>

theorem C4_validation_order:
  fixes stringifyError :: "'j \<Rightarrow> js_string" and stringifyResponse :: "'j video_response \<Rightarrow> js_string"
    and r :: "'j video_response"
  defines "validate \<equiv> validateVideoResponse stringifyError stringifyResponse"
  defines "filtered \<equiv> (case raiMediaFilteredCount r of None \<Rightarrow> False | Some count \<Rightarrow> 0 < count)"
  shows "validate None = Inl (NodeOperationError (js ''Video generation failed: No response from API''))
    \<and> (\<forall>e. resp_error r = Some e \<longrightarrow>
          validate (Some r)
            = Inl (NodeOperationError (js ''Video generation failed: '' @ stringifyError e)))
    \<and> (resp_error r = None \<and> filtered \<longrightarrow>
          validate (Some r)
            = Inl (NodeOperationError
                    (js ''Video generation was blocked by safety filters.'' @ [LF]
                     @ js ''Reasons: ''
                     @ join (case raiMediaFilteredReasons r of None \<Rightarrow> [] | Some rs \<Rightarrow> rs) (js ''; '')
                     @ [LF, LF]
                     @ js ''Please try modifying your prompt or using different images.'')))
    \<and> (resp_error r = None \<and> \<not> filtered
          \<and> (generatedSamplesOf r = None \<or> generatedSamplesOf r = Some []) \<longrightarrow>
          validate (Some r)
            = Inl (NodeOperationError
                    (js ''No videos were generated. Response: '' @ take 500 (stringifyResponse r))))
    \<and> (\<forall>first others. resp_error r = None \<and> \<not> filtered
          \<and> generatedSamplesOf r = Some (first # others)
          \<and> (gen_video first = None \<or> (\<exists>v. gen_video first = Some v
                \<and> (video_uri v = None \<or> video_uri v = Some []))) \<longrightarrow>
          validate (Some r) = Inl (NodeOperationError (js ''Generated video is missing URI'')))
    \<and> (\<forall>first others v u. resp_error r = None \<and> \<not> filtered
          \<and> generatedSamplesOf r = Some (first # others)
          \<and> gen_video first = Some v \<and> video_uri v = Some u \<and> u \<noteq> [] \<longrightarrow>
          validate (Some r)
            = (case decodeURIComponent u of None \<Rightarrow> Inl (JsError URIError) | Some decoded \<Rightarrow> Inr decoded))"
proof -
  have 1: "validate None = Inl (NodeOperationError (js ''Video generation failed: No response from API''))"
    by (simp add: validate_def validateVideoResponse_def)
  have 2: "\<forall>e. resp_error r = Some e \<longrightarrow>
          validate (Some r)
            = Inl (NodeOperationError (js ''Video generation failed: '' @ stringifyError e))"
    by (simp add: validate_def validateVideoResponse_def)
  have f: "filtered \<longleftrightarrow> (case raiMediaFilteredCount r of
                     None \<Rightarrow> False | Some count \<Rightarrow> count \<noteq> 0 \<and> count > 0)"
    by (auto simp: filtered_def split: option.splits)
  have 3: "resp_error r = None \<and> filtered \<longrightarrow>
          validate (Some r)
            = Inl (NodeOperationError
                    (js ''Video generation was blocked by safety filters.'' @ [LF]
                     @ js ''Reasons: ''
                     @ join (case raiMediaFilteredReasons r of None \<Rightarrow> [] | Some rs \<Rightarrow> rs) (js ''; '')
                     @ [LF, LF]
                     @ js ''Please try modifying your prompt or using different images.''))"
    unfolding f by (simp add: validate_def validateVideoResponse_def)
  have 4: "resp_error r = None \<and> \<not> filtered
          \<and> (generatedSamplesOf r = None \<or> generatedSamplesOf r = Some []) \<longrightarrow>
          validate (Some r)
            = Inl (NodeOperationError
                    (js ''No videos were generated. Response: '' @ take 500 (stringifyResponse r)))"
    unfolding f generatedSamplesOf_def
    by (auto simp: validate_def validateVideoResponse_def)
  have 5: "\<forall>first others. resp_error r = None \<and> \<not> filtered
          \<and> generatedSamplesOf r = Some (first # others)
          \<and> (gen_video first = None \<or> (\<exists>v. gen_video first = Some v
                \<and> (video_uri v = None \<or> video_uri v = Some []))) \<longrightarrow>
          validate (Some r) = Inl (NodeOperationError (js ''Generated video is missing URI''))"
    unfolding f generatedSamplesOf_def
    by (auto simp: validate_def validateVideoResponse_def)
  have 6: "\<forall>first others v u. resp_error r = None \<and> \<not> filtered
          \<and> generatedSamplesOf r = Some (first # others)
          \<and> gen_video first = Some v \<and> video_uri v = Some u \<and> u \<noteq> [] \<longrightarrow>
          validate (Some r)
            = (case decodeURIComponent u of None \<Rightarrow> Inl (JsError URIError) | Some decoded \<Rightarrow> Inr decoded)"
    unfolding f generatedSamplesOf_def
    using decodeURIComponent_nonempty
    by (auto simp: validate_def validateVideoResponse_def split: option.splits)
  from 1 2 3 4 5 6 show ?thesis by (intro conjI)
qed

theorem C4_validation_order_witness:
  "validateVideoResponse id (\<lambda>r. [])
       (Some (response_with_uri (js ''https://host/files%2Fabc%20d?alt=media'')))
     = Inr (js ''https://host/files/abc d?alt=media'')
   \<and> decodeURIComponent (js ''https://host/files%2Fabc%20d?alt=media'')
     = Some (js ''https://host/files/abc d?alt=media'')
   \<and> decodeURIComponent (js ''caf%C3%A9'') = Some (js ''caf'' @ [0xE9])
   \<and> validateVideoResponse id (\<lambda>r. [])
       (Some ((response_with_uri (js ''u''))\<lparr>resp_error := Some (js ''quota''),
                 raiMediaFilteredCount := Some 1\<rparr>))
     = Inl (NodeOperationError (js ''Video generation failed: quota''))"
proof -
  let ?u = "js ''https://host/files%2Fabc%20d?alt=media''"
  have d: "decodeURIComponent ?u = Some (js ''https://host/files/abc d?alt=media'')"
    and e: "decodeURIComponent (js ''caf%C3%A9'') = Some (js ''caf'' @ [0xE9])"
    by code_simp+
  have h: "resp_error (response_with_uri ?u) = None"
    "raiMediaFilteredCount (response_with_uri ?u) = None"
    "generatedSamplesOf (response_with_uri ?u)
       = Some [\<lparr>gen_video = Some \<lparr>video_uri = Some ?u\<rparr>\<rparr>,
               \<lparr>gen_video = Some \<lparr>video_uri = Some (js ''second'')\<rparr>\<rparr>]"
    "?u \<noteq> []"
    by (simp_all add: response_with_uri_def generatedSamplesOf_def js_def)
  from C4_validation_order[where r = "response_with_uri ?u" and stringifyError = id
      and stringifyResponse = "\<lambda>r. []"] h d
  have a: "validateVideoResponse id (\<lambda>r. []) (Some (response_with_uri ?u))
     = Inr (js ''https://host/files/abc d?alt=media'')"
    by simp
  from C4_validation_order[where r = "(response_with_uri (js ''u''))\<lparr>resp_error := Some (js ''quota''),
                 raiMediaFilteredCount := Some 1\<rparr>" and stringifyError = id
      and stringifyResponse = "\<lambda>r. []"]
  have b: "validateVideoResponse id (\<lambda>r. [])
       (Some ((response_with_uri (js ''u''))\<lparr>resp_error := Some (js ''quota''),
                 raiMediaFilteredCount := Some 1\<rparr>))
     = Inl (NodeOperationError (js ''Video generation failed: quota''))"
    by (simp add: js_def response_with_uri_def)
  from a d e b show ?thesis by (intro conjI)
qed
section \<open>Properties of the polling loop\<close>




section \<open>Properties of \<^verbatim>\<open>createVideoObject\<close>\<close>

lemma includes_str_sublist: "includes_str s pat \<longleftrightarrow> sublist pat s"
  by (induction s) (auto simp: sublist_Cons_right)

lemma accepted_video_uri_nonempty:
  "includes_str t (js ''generativelanguage.googleapis.com'') \<or> startsWith t (js ''files/'')
     \<or> matchesFileId t \<Longrightarrow> t \<noteq> []"
  by (auto simp: js_def startsWith_def matchesFileId_def)

text \<open>
  Claim C6, as stated, says that an accepted input that is not a bare id is returned
  unchanged. The function returns the trimmed form: the input \<^verbatim>\<open>" files/abc"\<close> (leading
  space) is accepted, is not a bare id, and comes back as \<^verbatim>\<open>"files/abc"\<close>, which is not
  the input.
\<close>

theorem C6_untrimmed_input_is_changed:
  "createVideoObject (js '' files/abc'') = Inr \<lparr>uri = js ''files/abc''\<rparr>
   \<and> \<not> matchesFileId (trim (js '' files/abc''))
   \<and> js ''files/abc'' \<noteq> js '' files/abc''"
  by (simp add: createVideoObject_def js_def trim_def isWhiteSpace_def startsWith_def
      matchesFileId_def isFileIdChar_def)

text \<open>
  Claim C6, amended. Let \<open>t\<close> be the trimmed input. \<open>createVideoObject\<close> accepts exactly
  the inputs for which \<open>t\<close> contains the provider host
  \<^verbatim>\<open>generativelanguage.googleapis.com\<close>, or starts with \<^verbatim>\<open>files/\<close>, or is a bare id matching
  \<^verbatim>\<open>[a-zA-Z0-9_-]+\<close>; every other input is rejected with an error, in particular
  \<^verbatim>\<open>"http://evil.example/x"\<close>. A bare id is returned as \<^verbatim>\<open>files/<id>\<close>; every other accepted
  input is returned as its trimmed form \<open>t\<close>, with no other change.
\<close>

theorem C6_createVideoObject_accepts_exactly:
  fixes v :: js_string
  defines "t \<equiv> trim v"
  defines "accepted \<equiv>
    includes_str t (js ''generativelanguage.googleapis.com'') \<or> startsWith t (js ''files/'')
    \<or> matchesFileId t"
  shows "((\<exists>obj. createVideoObject v = Inr obj) \<longleftrightarrow> accepted)
    \<and> (\<not> accepted \<longrightarrow> (\<exists>e. createVideoObject v = Inl e))
    \<and> (matchesFileId t \<longrightarrow> createVideoObject v = Inr \<lparr>uri = js ''files/'' @ t\<rparr>)
    \<and> (accepted \<and> \<not> matchesFileId t \<longrightarrow> createVideoObject v = Inr \<lparr>uri = t\<rparr>)
    \<and> (\<exists>e. createVideoObject (js ''http://evil.example/x'') = Inl e)"
proof -
  have ne: "accepted \<Longrightarrow> t \<noteq> [] \<and> v \<noteq> []"
    using accepted_video_uri_nonempty[of t] unfolding accepted_def t_def
    by (auto simp: trim_def)
  have evil: "\<exists>e. createVideoObject (js ''http://evil.example/x'') = Inl e"
    by (simp add: createVideoObject_def js_def trim_def isWhiteSpace_def startsWith_def
        matchesFileId_def isFileIdChar_def)
  show ?thesis
    using ne evil unfolding accepted_def t_def
    by (auto simp: createVideoObject_def Let_def)
qed

theorem C6_createVideoObject_witness:
  "createVideoObject (js ''abc_12-3'') = Inr \<lparr>uri = js ''files/abc_12-3''\<rparr>
   \<and> createVideoObject (js '' files/abc '') = Inr \<lparr>uri = js ''files/abc''\<rparr>
   \<and> (\<exists>e. createVideoObject (js ''bad string'') = Inl e)"
proof -
  have a: "matchesFileId (trim (js ''abc_12-3''))" and a': "trim (js ''abc_12-3'') = js ''abc_12-3''"
    by (simp_all add: js_def trim_def isWhiteSpace_def matchesFileId_def isFileIdChar_def)
  have b: "startsWith (trim (js '' files/abc '')) (js ''files/'')"
    and b': "\<not> matchesFileId (trim (js '' files/abc ''))"
    and b'': "trim (js '' files/abc '') = js ''files/abc''"
    by (simp_all add: js_def trim_def isWhiteSpace_def matchesFileId_def isFileIdChar_def
        startsWith_def)
  have c: "\<not> (includes_str (trim (js ''bad string'')) (js ''generativelanguage.googleapis.com'')
      \<or> startsWith (trim (js ''bad string'')) (js ''files/'')
      \<or> matchesFileId (trim (js ''bad string'')))"
    by (simp add: js_def trim_def isWhiteSpace_def matchesFileId_def isFileIdChar_def
        startsWith_def)
  from C6_createVideoObject_accepts_exactly[of "js ''abc_12-3''"] a a'
  have 1: "createVideoObject (js ''abc_12-3'') = Inr \<lparr>uri = js ''files/abc_12-3''\<rparr>"
    by (simp add: js_def)
  from C6_createVideoObject_accepts_exactly[of "js '' files/abc ''"] b b' b''
  have 2: "createVideoObject (js '' files/abc '') = Inr \<lparr>uri = js ''files/abc''\<rparr>"
    by simp
  from C6_createVideoObject_accepts_exactly[of "js ''bad string''"] c
  have 3: "\<exists>e. createVideoObject (js ''bad string'') = Inl e"
    by blast
  from 1 2 3 show ?thesis by blast
qed

section \<open>Properties of the voice assignment\<close>

lemma distinct_maleVoices: "distinct maleVoices"
  by (simp add: maleVoices_def js_def)

lemma distinct_femaleVoices: "distinct femaleVoices"
  by (simp add: femaleVoices_def js_def)

lemma distinct_allVoices: "distinct allVoices"
  by (simp add: allVoices_def maleVoices_def femaleVoices_def js_def)

lemma pool_cases:
  "pool category \<noteq> [] \<Longrightarrow>
   category = js ''__random__'' \<or> category = js ''__random_male__'' \<or> category = js ''__random_female__''"
  by (auto simp: pool_def split: if_splits)

lemma distinct_pool: "distinct (pool category)"
  by (simp add: pool_def distinct_maleVoices distinct_femaleVoices distinct_allVoices)

lemma pickRandom_in: "xs \<noteq> [] \<Longrightarrow> pickRandom xs r \<in> set xs"
  by (simp add: pickRandom_def)

lemma random_names_differ:
  "js ''__random_male__'' \<noteq> js ''__random__''" "js ''__random_female__'' \<noteq> js ''__random__''"
  "js ''__random_female__'' \<noteq> js ''__random_male__''"
  by (simp_all add: js_def)

lemma chooseVoice_pool:
  assumes "pool category \<noteq> []"
  shows "chooseVoice usedVoices category r =
     (if filter (\<lambda>v. v \<notin> usedVoices) (pool category) = [] then pickRandom (pool category) r
      else pickRandom (filter (\<lambda>v. v \<notin> usedVoices) (pool category)) r)"
  using pool_cases[OF assms] random_names_differ
  by (auto simp: chooseVoice_def pool_def Let_def)

lemma chooseVoice_random:
  assumes "pool category \<noteq> []"
  shows "chooseVoice usedVoices category r \<in> set (pool category)
    \<and> (chooseVoice usedVoices category r \<in> usedVoices \<longrightarrow> set (pool category) \<subseteq> usedVoices)"
proof (cases "filter (\<lambda>v. v \<notin> usedVoices) (pool category) = []")
  case True
  then have "set (pool category) \<subseteq> usedVoices"
    by (auto simp: filter_empty_conv)
  then show ?thesis
    using True assms by (simp add: chooseVoice_pool pickRandom_in)
next
  case False
  from pickRandom_in[OF False, of r]
  have "pickRandom (filter (\<lambda>v. v \<notin> usedVoices) (pool category)) r \<in> set (pool category)"
    and "pickRandom (filter (\<lambda>v. v \<notin> usedVoices) (pool category)) r \<notin> usedVoices"
    by simp_all
  then show ?thesis
    using False assms by (simp add: chooseVoice_pool)
qed

lemma assignVoices_length [simp]: "length (assignVoices random k usedVoices speakers) = length speakers"
  by (induction speakers arbitrary: k usedVoices) (simp_all add: Let_def)

lemma assignVoices_nth:
  "i < length speakers \<Longrightarrow>
   cfg_voiceName (assignVoices random k usedVoices speakers ! i) =
     chooseVoice (usedVoices \<union> assignedBefore (assignVoices random k usedVoices speakers) i)
       (voiceName (speakers ! i)) (random (k + i))"
proof (induction speakers arbitrary: k usedVoices i)
  case Nil
  then show ?case by simp
next
  case (Cons s speakers)
  show ?case
  proof (cases i)
    case 0
    then show ?thesis by (simp add: Let_def assignedBefore_def)
  next
    case (Suc j)
    with Cons.prems have j: "j < length speakers" by simp
    from Cons.IH[OF j, of "k + 1" "insert (chooseVoice usedVoices (voiceName s) (random k)) usedVoices"]
    show ?thesis using Suc by (simp add: Let_def assignedBefore_def)
  qed
qed

lemma assignVoices_distinct:
  assumes "pool category \<noteq> []"
  shows "\<forall>s\<in>set speakers. voiceName s = category \<Longrightarrow> finite usedVoices \<Longrightarrow>
   card usedVoices + length speakers \<le> length (pool category) \<Longrightarrow>
   distinct (map cfg_voiceName (assignVoices random k usedVoices speakers))
   \<and> set (map cfg_voiceName (assignVoices random k usedVoices speakers)) \<inter> usedVoices = {}"
proof (induction speakers arbitrary: k usedVoices)
  case Nil
  then show ?case by simp
next
  case (Cons s speakers)
  let ?v = "chooseVoice usedVoices category (random k)"
  have cat: "voiceName s = category" using Cons.prems(1) by simp
  have "card usedVoices < card (set (pool category))"
    using Cons.prems(3) by (simp add: distinct_card[OF distinct_pool])
  then have "\<not> set (pool category) \<subseteq> usedVoices"
    using card_mono[OF Cons.prems(2), of "set (pool category)"] by auto
  with chooseVoice_random[OF assms, of usedVoices "random k"]
  have fresh: "?v \<notin> usedVoices" by blast
  have "card (insert ?v usedVoices) + length speakers \<le> length (pool category)"
    using Cons.prems(2,3) fresh by simp
  from Cons.IH[of "insert ?v usedVoices" "k + 1", OF _ _ this] Cons.prems(1,2)
  have "distinct (map cfg_voiceName (assignVoices random (k + 1) (insert ?v usedVoices) speakers))"
    and "set (map cfg_voiceName (assignVoices random (k + 1) (insert ?v usedVoices) speakers))
           \<inter> insert ?v usedVoices = {}"
    by simp_all
  then show ?case using fresh cat by (auto simp: Let_def)
qed

text \<open>
  Claim C7. Whatever the random source draws: when every speaker of a request asks for a
  random voice of the same category (\<^verbatim>\<open>__random__\<close>, \<^verbatim>\<open>__random_male__\<close> or \<^verbatim>\<open>__random_female__\<close>) and
  there are at most as many speakers as the category's pool has voices, the assigned voices
  are pairwise distinct. In any request, a speaker asking for a random voice of a category
  gets a voice of that category's pool, and gets one that was assigned to an earlier speaker of
  the request only when every voice of the pool has been assigned already; the assignment
  itself never fails.
\<close>

theorem C7_random_voices_distinct:
  fixes random :: "nat \<Rightarrow> nat" and speakers :: "speaker list" and category :: js_string
  defines "configs \<equiv> speakerVoiceConfigs random speakers"
  shows "(pool category \<noteq> [] \<and> (\<forall>s\<in>set speakers. voiceName s = category)
            \<and> length speakers \<le> length (pool category) \<longrightarrow>
          distinct (map cfg_voiceName configs))
    \<and> length configs = length speakers
    \<and> (\<forall>i. i < length speakers \<and> pool (voiceName (speakers ! i)) \<noteq> [] \<longrightarrow>
          cfg_voiceName (configs ! i) \<in> set (pool (voiceName (speakers ! i)))
          \<and> (cfg_voiceName (configs ! i) \<in> assignedBefore configs i \<longrightarrow>
                set (pool (voiceName (speakers ! i))) \<subseteq> assignedBefore configs i))
    \<and> length maleVoices = 16 \<and> length femaleVoices = 14 \<and> length allVoices = 30"
proof -
  have 1: "pool category \<noteq> [] \<and> (\<forall>s\<in>set speakers. voiceName s = category)
            \<and> length speakers \<le> length (pool category) \<longrightarrow>
          distinct (map cfg_voiceName configs)"
    unfolding configs_def speakerVoiceConfigs_def
    using assignVoices_distinct[of category speakers "{}" random 0] by simp
  have 2: "length configs = length speakers"
    by (simp add: configs_def speakerVoiceConfigs_def)
  have 3: "\<forall>i. i < length speakers \<and> pool (voiceName (speakers ! i)) \<noteq> [] \<longrightarrow>
          cfg_voiceName (configs ! i) \<in> set (pool (voiceName (speakers ! i)))
          \<and> (cfg_voiceName (configs ! i) \<in> assignedBefore configs i \<longrightarrow>
                set (pool (voiceName (speakers ! i))) \<subseteq> assignedBefore configs i)"
  proof (intro allI impI)
    fix i assume h: "i < length speakers \<and> pool (voiceName (speakers ! i)) \<noteq> []"
    then have eq: "cfg_voiceName (configs ! i) =
        chooseVoice (assignedBefore configs i) (voiceName (speakers ! i)) (random i)"
      unfolding configs_def speakerVoiceConfigs_def
      using assignVoices_nth[of i speakers random 0 "{}"] by simp
    from h chooseVoice_random[of "voiceName (speakers ! i)" "assignedBefore configs i" "random i"]
    show "cfg_voiceName (configs ! i) \<in> set (pool (voiceName (speakers ! i)))
          \<and> (cfg_voiceName (configs ! i) \<in> assignedBefore configs i \<longrightarrow>
                set (pool (voiceName (speakers ! i))) \<subseteq> assignedBefore configs i)"
      unfolding eq by blast
  qed
  have 4: "length maleVoices = 16 \<and> length femaleVoices = 14 \<and> length allVoices = 30"
    by (simp add: allVoices_def maleVoices_def femaleVoices_def)
  from 1 2 3 4 show ?thesis by blast
qed

theorem C7_random_voices_witness:
  "pool (js ''__random_male__'') \<noteq> []
   \<and> length three_male_speakers \<le> length (pool (js ''__random_male__''))
   \<and> speakerVoiceConfigs (\<lambda>k. 0) three_male_speakers =
       [\<lparr>cfg_speaker = js ''A'', cfg_voiceName = js ''Puck''\<rparr>,
        \<lparr>cfg_speaker = js ''B'', cfg_voiceName = js ''Charon''\<rparr>,
        \<lparr>cfg_speaker = js ''C'', cfg_voiceName = js ''Fenrir''\<rparr>]
   \<and> distinct (map cfg_voiceName (speakerVoiceConfigs (\<lambda>k. 0) three_male_speakers))"
proof -
  have p: "pool (js ''__random_male__'') \<noteq> []"
    by (simp add: pool_def maleVoices_def random_names_differ)
  have l: "length three_male_speakers \<le> length (pool (js ''__random_male__''))"
    by (simp add: pool_def maleVoices_def random_names_differ three_male_speakers_def)
  have c: "\<forall>s\<in>set three_male_speakers. voiceName s = js ''__random_male__''"
    by (simp add: three_male_speakers_def)
  have r: "speakerVoiceConfigs (\<lambda>k. 0) three_male_speakers =
       [\<lparr>cfg_speaker = js ''A'', cfg_voiceName = js ''Puck''\<rparr>,
        \<lparr>cfg_speaker = js ''B'', cfg_voiceName = js ''Charon''\<rparr>,
        \<lparr>cfg_speaker = js ''C'', cfg_voiceName = js ''Fenrir''\<rparr>]"
    by code_simp
  from C7_random_voices_distinct[of "js ''__random_male__''" three_male_speakers "\<lambda>k. 0"] p l c
  have "distinct (map cfg_voiceName (speakerVoiceConfigs (\<lambda>k. 0) three_male_speakers))"
    by blast
  with p l r show ?thesis by blast
qed
section \<open>Properties of the \<^verbatim>\<open>generateImage\<close> result\<close>












section \<open>Properties of \<^verbatim>\<open>removeAudioFromVideo\<close>\<close>

text \<open>
  Claim C8. For every system state and every input buffer the function returns a result
  and throws nothing. When the input file cannot be written, \<^verbatim>\<open>ffmpeg\<close> fails or is missing,
  or the output cannot be read, the result is the input buffer with \<^verbatim>\<open>audioRemoved = false\<close>;
  when all three succeed it is what \<^verbatim>\<open>ffmpeg\<close> produced from the input, with
  \<^verbatim>\<open>audioRemoved = true\<close>, whether or not the temporary files could be removed.
\<close>

theorem C8_removeAudioFromVideo_never_raises:
  fixes os :: os_env and fs :: files and videoBuffer :: bytes
  defines "inputPath \<equiv> tmpdir os @ js ''/'' @ js ''input_'' @ decimal (date_now os) @ js ''.mp4''"
  defines "outputPath \<equiv> tmpdir os @ js ''/'' @ js ''output_'' @ decimal (date_now os) @ js ''.mp4''"
  defines "result \<equiv> fst (removeAudioFromVideo os fs videoBuffer)"
  shows "(\<exists>r. result = Inr r \<and> (\<not> audioRemoved r \<longrightarrow> buffer r = videoBuffer)
            \<and> (audioRemoved r \<longrightarrow> ffmpeg_remux os videoBuffer = Some (buffer r)))
    \<and> (ffmpeg_remux os videoBuffer = None \<longrightarrow>
          result = Inr \<lparr>buffer = videoBuffer, audioRemoved = False\<rparr>)
    \<and> (\<not> writable os inputPath \<or> \<not> readable os outputPath \<longrightarrow>
          result = Inr \<lparr>buffer = videoBuffer, audioRemoved = False\<rparr>)
    \<and> (\<forall>remuxed. writable os inputPath \<and> ffmpeg_remux os videoBuffer = Some remuxed
            \<and> readable os outputPath \<longrightarrow>
          result = Inr \<lparr>buffer = remuxed, audioRemoved = True\<rparr>)"
  unfolding result_def inputPath_def outputPath_def
  by (auto simp: removeAudioFromVideo_def Let_def writeFile_def execFfmpegStripAudio_def
      readFile_def split: sum.splits option.splits if_splits prod.splits)

theorem C8_removeAudioFromVideo_witness:
  "fst (removeAudioFromVideo no_ffmpeg Map.empty [1, 2, 3])
     = Inr \<lparr>buffer = [1, 2, 3], audioRemoved = False\<rparr>
   \<and> ffmpeg_remux no_ffmpeg [1, 2, 3] = None
   \<and> fst (removeAudioFromVideo with_ffmpeg Map.empty [1, 2, 3])
     = Inr \<lparr>buffer = [1, 2], audioRemoved = True\<rparr>
   \<and> ffmpeg_remux with_ffmpeg [1, 2, 3] = Some [1, 2]"
proof -
  have n: "ffmpeg_remux no_ffmpeg [1, 2, 3] = None"
    by (simp add: no_ffmpeg_def)
  have w: "ffmpeg_remux with_ffmpeg [1, 2, 3] = Some [1, 2]"
    "writable with_ffmpeg p" "readable with_ffmpeg p" for p
    by (simp_all add: with_ffmpeg_def no_ffmpeg_def)
  from C8_removeAudioFromVideo_never_raises[where os = no_ffmpeg and fs = Map.empty and videoBuffer = "[1, 2, 3]"] n
  have 1: "fst (removeAudioFromVideo no_ffmpeg Map.empty [1, 2, 3])
     = Inr \<lparr>buffer = [1, 2, 3], audioRemoved = False\<rparr>"
    by blast
  from C8_removeAudioFromVideo_never_raises[where os = with_ffmpeg and fs = Map.empty and videoBuffer = "[1, 2, 3]"] w
  have 2: "fst (removeAudioFromVideo with_ffmpeg Map.empty [1, 2, 3])
     = Inr \<lparr>buffer = [1, 2], audioRemoved = True\<rparr>"
    by blast
  from 1 2 n w(1) show ?thesis by blast
qed
section \<open>Properties of the catch handler\<close>

lemma executeLoop_continue:
  "i \<le> n \<Longrightarrow>
   executeLoop n8nMessage True body n i returnData =
     Inr (returnData @ map (\<lambda>j. case body j of Inr r \<Rightarrow> Result r j
                                  | Inl e \<Rightarrow> ErrorResult (sanitizedMessage e) j) [i..<n])"
proof (induction "n - i" arbitrary: i returnData)
  case 0
  then show ?case by (subst executeLoop.simps) simp
next
  case (Suc k)
  then have lt: "i < n" and k: "k = n - Suc i" and le: "Suc i \<le> n" by simp_all
  note IH = Suc.hyps(1)[OF k le]
  show ?case
    by (subst executeLoop.simps) (simp add: lt IH upt_conv_Cons split: sum.splits)
qed

lemma executeLoop_abort:
  "i \<le> k \<Longrightarrow> k < n \<Longrightarrow> body k = Inl e \<Longrightarrow> (\<forall>j. i \<le> j \<and> j < k \<longrightarrow> (\<exists>r. body j = Inr r)) \<Longrightarrow>
   executeLoop n8nMessage False body n i returnData =
     Inl \<lparr>cause = \<lparr>sanitized_message = sanitizedMessage e, sanitized_stack = caught_stack e\<rparr>,
          itemIndex = k, raised_message = n8nMessage (sanitizedMessage e)\<rparr>"
proof (induction "k - i" arbitrary: i returnData)
  case 0
  then have "i = k" by simp
  with 0 show ?case by (subst executeLoop.simps) (simp add: Let_def)
next
  case (Suc d)
  then have lt: "i < k" and d: "d = k - Suc i" and le: "Suc i \<le> k" by simp_all
  from Suc.prems(4) lt obtain r where r: "body i = Inr r" by auto
  have rest: "\<forall>j. Suc i \<le> j \<and> j < k \<longrightarrow> (\<exists>r. body j = Inr r)"
    using Suc.prems(4) by auto
  note IH = Suc.hyps(1)[OF d le Suc.prems(2) Suc.prems(3) rest]
  have "i < n" using lt Suc.prems(2) by simp
  then show ?case
    by (subst executeLoop.simps) (simp add: r IH)
qed

lemma sanitizedMessage_no_control:
  "\<forall>c\<in>set (sanitizedMessage e). \<not> isControlChar c"
proof -
  have "\<forall>c\<in>set (js ''Unknown error occurred''). \<not> isControlChar c"
    by (simp add: js_def isControlChar_def)
  then show ?thesis
    by (auto simp: sanitizedMessage_def split: option.splits)
qed

text \<open>
  Claim C9, as stated, has the message of the error that aborts the batch be the
  underlying message without its control characters. The handler builds that error with
  the class \<^verbatim>\<open>NodeOperationError\<close> of \<^verbatim>\<open>n8n-workflow\<close>, whose constructor replaces a message that
  contains a common error code by a description of the code: an item failing with
  \<^verbatim>\<open>ENOENT: no such file or directory, open /tmp/in.mp4\<close>, which has no control character,
  aborts the batch with the message \<^verbatim>\<open>The file or directory does not exist\<close>.
\<close>

theorem C9_raised_message_is_replaced:
  "execute describesCommonErrors False one_missing_file 1 =
     Inl \<lparr>cause = \<lparr>sanitized_message = js ''ENOENT: no such file or directory, open /tmp/in.mp4'',
                    sanitized_stack = None\<rparr>,
          itemIndex = 0, raised_message = js ''The file or directory does not exist''\<rparr>
   \<and> one_missing_file 0 = Inl missing_file
   \<and> caught_message missing_file
       = Some (js ''ENOENT: no such file or directory, open /tmp/in.mp4'')
   \<and> filter (\<lambda>c. \<not> isControlChar c) (js ''ENOENT: no such file or directory, open /tmp/in.mp4'')
       = js ''ENOENT: no such file or directory, open /tmp/in.mp4''
   \<and> js ''The file or directory does not exist''
       \<noteq> js ''ENOENT: no such file or directory, open /tmp/in.mp4''"
  by code_simp

text \<open>
  Claim C9, amended. With continue-on-failure, the batch returns one entry per item, and
  the entry of an item that threw records the thrown error's message with every code unit in
  \<^verbatim>\<open>\x00-\x1F\<close> and \<^verbatim>\<open>\x7F-\x9F\<close> removed and all others kept in order, or
  \<^verbatim>\<open>Unknown error occurred\<close> when the error has no message or an empty one; no control character
  is recorded. Without continue-on-failure, the first item that throws aborts the batch: the
  handler hands \<^verbatim>\<open>new Error\<close> of that same sanitized message, with the stack of the thrown error
  copied unchanged, to \<^verbatim>\<open>NodeOperationError\<close>, and the message surfaced is what the constructor
  of that class makes of the sanitized message, which is the sanitized message itself only
  where the constructor keeps it.
\<close>

theorem C9_sanitized_message_recorded_or_handed_over:
  fixes body :: "nat \<Rightarrow> caught + 'r" and n :: nat and n8nMessage :: "js_string \<Rightarrow> js_string"
  shows "(\<exists>returnData. execute n8nMessage True body n = Inr returnData \<and> length returnData = n
            \<and> (\<forall>i e. i < n \<and> body i = Inl e \<longrightarrow>
                  returnData ! i = ErrorResult (sanitizedMessage e) i))
    \<and> (\<forall>i e. i < n \<and> body i = Inl e \<and> (\<forall>j. j < i \<longrightarrow> (\<exists>r. body j = Inr r)) \<longrightarrow>
          execute n8nMessage False body n =
            Inl \<lparr>cause = \<lparr>sanitized_message = sanitizedMessage e,
                           sanitized_stack = caught_stack e\<rparr>,
                 itemIndex = i, raised_message = n8nMessage (sanitizedMessage e)\<rparr>)
    \<and> (\<forall>e. (\<forall>c\<in>set (sanitizedMessage e). \<not> (c \<le> 0x1F \<or> (0x7F \<le> c \<and> c \<le> 0x9F)))
          \<and> (\<forall>m. caught_message e = Some m \<and> m \<noteq> [] \<longrightarrow>
                sanitizedMessage e = filter (\<lambda>c. \<not> (c \<le> 0x1F \<or> (0x7F \<le> c \<and> c \<le> 0x9F))) m)
          \<and> (caught_message e = None \<or> caught_message e = Some [] \<longrightarrow>
                sanitizedMessage e = js ''Unknown error occurred''))"
proof -
  let ?entry = "\<lambda>j. case body j of Inr r \<Rightarrow> Result r j | Inl e \<Rightarrow> ErrorResult (sanitizedMessage e) j"
  have run: "execute n8nMessage True body n = Inr (map ?entry [0..<n])"
    using executeLoop_continue[of 0 n n8nMessage body "[]"] by (simp add: execute_def)
  have 1: "\<exists>returnData. execute n8nMessage True body n = Inr returnData \<and> length returnData = n
            \<and> (\<forall>i e. i < n \<and> body i = Inl e \<longrightarrow>
                  returnData ! i = ErrorResult (sanitizedMessage e) i)"
    unfolding run by simp
  have 2: "\<forall>i e. i < n \<and> body i = Inl e \<and> (\<forall>j. j < i \<longrightarrow> (\<exists>r. body j = Inr r)) \<longrightarrow>
          execute n8nMessage False body n =
            Inl \<lparr>cause = \<lparr>sanitized_message = sanitizedMessage e,
                           sanitized_stack = caught_stack e\<rparr>,
                 itemIndex = i, raised_message = n8nMessage (sanitizedMessage e)\<rparr>"
  proof (intro allI impI)
    fix i e
    assume h: "i < n \<and> body i = Inl e \<and> (\<forall>j. j < i \<longrightarrow> (\<exists>r. body j = Inr r))"
    then have "executeLoop n8nMessage False body n 0 [] =
        Inl \<lparr>cause = \<lparr>sanitized_message = sanitizedMessage e, sanitized_stack = caught_stack e\<rparr>,
             itemIndex = i, raised_message = n8nMessage (sanitizedMessage e)\<rparr>"
      by (intro executeLoop_abort) auto
    then show "execute n8nMessage False body n =
            Inl \<lparr>cause = \<lparr>sanitized_message = sanitizedMessage e,
                           sanitized_stack = caught_stack e\<rparr>,
                 itemIndex = i, raised_message = n8nMessage (sanitizedMessage e)\<rparr>"
      by (simp add: execute_def)
  qed
  have 3: "\<forall>e. (\<forall>c\<in>set (sanitizedMessage e). \<not> (c \<le> 0x1F \<or> (0x7F \<le> c \<and> c \<le> 0x9F)))
          \<and> (\<forall>m. caught_message e = Some m \<and> m \<noteq> [] \<longrightarrow>
                sanitizedMessage e = filter (\<lambda>c. \<not> (c \<le> 0x1F \<or> (0x7F \<le> c \<and> c \<le> 0x9F))) m)
          \<and> (caught_message e = None \<or> caught_message e = Some [] \<longrightarrow>
                sanitizedMessage e = js ''Unknown error occurred'')"
    using sanitizedMessage_no_control
    by (auto simp: sanitizedMessage_def isControlChar_def)
  from 1 2 3 show ?thesis by (intro conjI)
qed

theorem C9_sanitized_message_witness:
  "execute describesCommonErrors True three_items 3
     = Inr [Result 0 0, ErrorResult (js ''baddata'') 1, Result 20 2]
   \<and> execute describesCommonErrors False three_items 3
     = Inl \<lparr>cause = \<lparr>sanitized_message = js ''baddata'',
                      sanitized_stack = Some (js ''Error: bad data'' @ [LF] @ js ''    at execute'')\<rparr>,
            itemIndex = 1, raised_message = js ''baddata''\<rparr>
   \<and> sanitizedMessage noisy_error = js ''baddata''
   \<and> sanitizedMessage \<lparr>caught_message = None, caught_stack = None\<rparr> = js ''Unknown error occurred''
   \<and> sanitizedMessage \<lparr>caught_message = Some [], caught_stack = None\<rparr> = js ''Unknown error occurred''"
proof -
  have s: "sanitizedMessage noisy_error = js ''baddata''"
    and k: "caught_stack noisy_error = Some (js ''Error: bad data'' @ [LF] @ js ''    at execute'')"
    and d: "describesCommonErrors (js ''baddata'') = js ''baddata''"
    by code_simp+
  have b: "three_items 0 = Inr 0" "three_items 1 = Inl noisy_error" "three_items 2 = Inr 20"
    by (simp_all add: three_items_def)
  have first: "\<forall>j. j < (1::nat) \<longrightarrow> (\<exists>r. three_items j = Inr r)"
    by (simp add: three_items_def)
  note T = C9_sanitized_message_recorded_or_handed_over[of describesCommonErrors three_items 3]
  have t: "execute describesCommonErrors True three_items 3
     = Inr [Result 0 0, ErrorResult (js ''baddata'') 1, Result 20 2]"
    by code_simp
  from T b first have "execute describesCommonErrors False three_items 3 =
      Inl \<lparr>cause = \<lparr>sanitized_message = sanitizedMessage noisy_error,
                     sanitized_stack = caught_stack noisy_error\<rparr>,
           itemIndex = 1, raised_message = describesCommonErrors (sanitizedMessage noisy_error)\<rparr>"
    by auto
  then have f: "execute describesCommonErrors False three_items 3
     = Inl \<lparr>cause = \<lparr>sanitized_message = js ''baddata'',
                      sanitized_stack = Some (js ''Error: bad data'' @ [LF] @ js ''    at execute'')\<rparr>,
            itemIndex = 1, raised_message = js ''baddata''\<rparr>"
    by (simp add: s k d)
  from T have u: "sanitizedMessage \<lparr>caught_message = None, caught_stack = None\<rparr>
       = js ''Unknown error occurred''"
    and v: "sanitizedMessage \<lparr>caught_message = Some [], caught_stack = None\<rparr>
       = js ''Unknown error occurred''"
    by simp_all
  from t f s u v show ?thesis by (intro conjI)
qed
end
